theory Spec2Isabelle
  imports Main "HOL-Library.Word" "HOL-Library.Signed_Division"
begin

section \<open>Values, errors and outcomes\<close>

type_synonym byte = "8 word"

text \<open>
  Modelled from the spec: the error values \<open>ErrInvalidProof\<close>, \<open>ErrMissingClaims\<close>, ... are
  declared in a file of the repository that is not part of \<open>parse.go\<close>; section 7 of the
  specification lists them. \<open>CorruptInputError\<close> is the error of Go's \<open>encoding/base64\<close>
  (its byte offset is not modelled), \<open>LibraryError\<close> stands for any error value produced by
  the JWT, URL or JSON libraries, and \<open>Join\<close> is \<open>errors.Join\<close>.
\<close>

datatype error =
    ErrInvalidProof
  | ErrMissingClaims
  | ErrUnsupportedJWTType
  | ErrIncorrectHTTPTarget
  | ErrIncorrectNonce
  | ErrExpired
  | ErrFuture
  | ErrMissingJWK
  | ErrUnsupportedCurve
  | ErrUnsupportedKeyAlgorithm
  | ErrIncorrectJKT
  | CorruptInputError
  | LibraryError string
  | Join "error list"

text \<open>
  A Go call either returns or panics. Functions of \<open>parse.go\<close> that can panic return an
  \<open>outcome\<close>; their ordinary \<open>(value, error)\<close> result is the sum \<open>error + value\<close>.
\<close>

datatype 'a outcome = Panic | Return 'a

text \<open>
  A value of type \<open>interface{}\<close> as \<open>encoding/json\<close> produces it: \<open>nil\<close>, \<open>bool\<close>,
  \<open>float64\<close> (its 64 bits), \<open>string\<close>, \<open>[]interface{}\<close> and \<open>map[string]interface{}\<close>.
  A Go map has neither member order nor duplicate keys, so it is a partial function.
\<close>

datatype iface =
    VNil
  | VBool bool
  | VFloat64 "64 word"
  | VString string
  | VSlice "iface list"
  | VMap "string \<Rightarrow> iface option"

text \<open>\<open>m[k]\<close>: a missing key reads as the zero value \<open>nil\<close>.\<close>

definition index :: "(string \<rightharpoonup> iface) \<Rightarrow> string \<Rightarrow> iface" where
  "index m k = (case m k of None \<Rightarrow> VNil | Some v \<Rightarrow> v)"

text \<open>\<open>x == nil\<close> on an interface value.\<close>

definition is_nil :: "iface \<Rightarrow> bool" where
  "is_nil v = (case v of VNil \<Rightarrow> True | _ \<Rightarrow> False)"

text \<open>\<open>v, ok := x.(string)\<close>: the two-valued type assertion never panics.\<close>

definition as_string :: "iface \<Rightarrow> string option" where
  "as_string v = (case v of VString s \<Rightarrow> Some s | _ \<Rightarrow> None)"

text \<open>\<open>x.(string)\<close>: the one-valued type assertion panics on any other dynamic type.\<close>

definition assert_string :: "iface \<Rightarrow> string outcome" where
  "assert_string v = (case v of VString s \<Rightarrow> Return s | _ \<Rightarrow> Panic)"

section \<open>The library functions \<open>parse.go\<close> calls\<close>

subsection \<open>\<open>base64.RawURLEncoding\<close> and \<open>strings.TrimRight\<close>\<close>

definition encodeURL :: string where
  "encodeURL = ''ABCDEFGHIJKLMNOPQRSTUVWXYZabcdefghijklmnopqrstuvwxyz0123456789-_''"

definition enc6 :: "nat \<Rightarrow> char" where
  "enc6 n = encodeURL ! (n mod 64)"

text \<open>
  Three bytes make the 24-bit value \<open>val\<close>, written as four 6-bit digits; a last group of two
  bytes gives three characters, of one byte two characters, and no padding is written.
\<close>

fun encode_quanta :: "byte list \<Rightarrow> string" where
  "encode_quanta (a # b # c # rest) =
     (let val = unat a * 65536 + unat b * 256 + unat c
      in enc6 (val div 262144) # enc6 (val div 4096) # enc6 (val div 64) # enc6 val
           # encode_quanta rest)"
| "encode_quanta [a, b] =
     (let val = unat a * 65536 + unat b * 256
      in [enc6 (val div 262144), enc6 (val div 4096), enc6 (val div 64)])"
| "encode_quanta [a] =
     (let val = unat a * 65536
      in [enc6 (val div 262144), enc6 (val div 4096)])"
| "encode_quanta [] = []"

definition EncodeToString :: "byte list \<Rightarrow> string" where
  "EncodeToString src = encode_quanta src"

definition decodeMap :: "char \<Rightarrow> nat option" where
  "decodeMap = map_of (zip encodeURL [0..<64])"

text \<open>
  The decoder reads four characters at a time. A character outside the alphabet (the padding
  character included, as the encoding has none) and a last group of one character are
  errors; the bits of a last group that do not fill a byte are dropped unchecked, the
  encoding not being strict.
\<close>

fun decode_quanta :: "string \<Rightarrow> error + byte list" where
  "decode_quanta [] = Inr []"
| "decode_quanta [c0] = Inl CorruptInputError"
| "decode_quanta [c0, c1] =
     (case (decodeMap c0, decodeMap c1) of
        (Some d0, Some d1) \<Rightarrow>
          (let val = d0 * 262144 + d1 * 4096 in Inr [word_of_nat (val div 65536)])
      | _ \<Rightarrow> Inl CorruptInputError)"
| "decode_quanta [c0, c1, c2] =
     (case (decodeMap c0, decodeMap c1, decodeMap c2) of
        (Some d0, Some d1, Some d2) \<Rightarrow>
          (let val = d0 * 262144 + d1 * 4096 + d2 * 64
           in Inr [word_of_nat (val div 65536), word_of_nat (val div 256)])
      | _ \<Rightarrow> Inl CorruptInputError)"
| "decode_quanta (c0 # c1 # c2 # c3 # rest) =
     (case (decodeMap c0, decodeMap c1, decodeMap c2, decodeMap c3) of
        (Some d0, Some d1, Some d2, Some d3) \<Rightarrow>
          (let val = d0 * 262144 + d1 * 4096 + d2 * 64 + d3
           in case decode_quanta rest of
                Inl e \<Rightarrow> Inl e
              | Inr bs \<Rightarrow>
                  Inr (word_of_nat (val div 65536) # word_of_nat (val div 256)
                         # word_of_nat val # bs))
      | _ \<Rightarrow> Inl CorruptInputError)"

text \<open>Carriage returns and line feeds in the input are skipped.\<close>

definition DecodeString :: "string \<Rightarrow> error + byte list" where
  "DecodeString s = decode_quanta (filter (\<lambda>c. c \<noteq> CHR 0x0A \<and> c \<noteq> CHR 0x0D) s)"

definition TrimRight :: "string \<Rightarrow> string \<Rightarrow> string" where
  "TrimRight s cutset = rev (dropWhile (\<lambda>c. c \<in> set cutset) (rev s))"

subsection \<open>\<open>math/big\<close>\<close>

text \<open>
  A \<open>*big.Int\<close> is an \<open>int\<close>. \<open>SetBytes\<close> reads a big-endian unsigned integer, \<open>Bytes\<close>
  writes the absolute value with no leading zero byte, \<open>FillBytes\<close> writes it into a
  zeroed buffer of the given length and panics when it does not fit, and \<open>Uint64\<close> keeps
  the low 64 bits of the absolute value.
\<close>

definition SetBytes :: "byte list \<Rightarrow> int" where
  "SetBytes buf = int (foldl (\<lambda>acc b. acc * 256 + unat b) 0 buf)"

function nat_bytes :: "nat \<Rightarrow> byte list" where
  "nat_bytes n = (if n = 0 then [] else nat_bytes (n div 256) @ [word_of_nat n])"
  by pat_completeness auto
termination
  by (relation "measure id") auto

declare nat_bytes.simps [simp del]

definition Bytes :: "int \<Rightarrow> byte list" where
  "Bytes x = nat_bytes (nat \<bar>x\<bar>)"

definition FillBytes :: "int \<Rightarrow> nat \<Rightarrow> byte list outcome" where
  "FillBytes x n =
     (let bs = Bytes x
      in if n < length bs then Panic else Return (replicate (n - length bs) 0 @ bs))"

definition Uint64 :: "int \<Rightarrow> 64 word" where
  "Uint64 x = word_of_nat (nat \<bar>x\<bar>)"

subsection \<open>\<open>crypto/elliptic\<close>, keys\<close>

record CurveParams =
  Name :: string
  BitSize :: int

definition P256 :: CurveParams where
  "P256 = \<lparr>Name = ''P-256'', BitSize = 256\<rparr>"

definition P384 :: CurveParams where
  "P384 = \<lparr>Name = ''P-384'', BitSize = 384\<rparr>"

definition P521 :: CurveParams where
  "P521 = \<lparr>Name = ''P-521'', BitSize = 521\<rparr>"

text \<open>
  The dynamic type of a key: \<open>*ecdsa.PublicKey{Curve, X, Y}\<close>, \<open>*rsa.PublicKey{N, E}\<close>
  (Go's \<open>int\<close> is taken to be 64 bits wide, as on amd64 and arm64), \<open>ed25519.PublicKey\<close>
  (a byte slice), or any other type.
\<close>

datatype key =
    ECDSA_PublicKey CurveParams int int
  | RSA_PublicKey int "64 word"
  | Ed25519_PublicKey "byte list"
  | OtherKey

subsection \<open>\<open>net/url\<close>, \<open>time\<close>, the JWT library\<close>

record URL =
  Scheme :: string
  Opaque :: string
  User :: "(string \<times> string \<times> bool) option"
  Host :: string
  Path :: string
  RawPath :: string
  OmitHost :: bool
  ForceQuery :: bool
  RawQuery :: string
  Fragment :: string
  RawFragment :: string

text \<open>
  A \<open>time.Time\<close> without monotonic reading is its count of nanoseconds since the epoch;
  a \<open>time.Duration\<close> is a signed 64-bit count of nanoseconds.
\<close>

type_synonym Time = int
type_synonym Duration = "64 word"

definition Add :: "Time \<Rightarrow> Duration \<Rightarrow> Time" where
  "Add t d = t + sint d"

definition Before :: "Time \<Rightarrow> Time \<Rightarrow> bool" where
  "Before t u = (t < u)"

definition After :: "Time \<Rightarrow> Time \<Rightarrow> bool" where
  "After t u = (u < t)"

definition DEFAULT_ALLOWED_PROOF_AGE :: Duration where
  "DEFAULT_ALLOWED_PROOF_AGE = 60000000000 * 5"

definition DEFAULT_ALLOWED_TIME_WINDOW :: Duration where
  "DEFAULT_ALLOWED_TIME_WINDOW = 1000000000 * 0"

type_synonym HTTPVerb = string

text \<open>
  Modelled from the spec: \<open>ProofTokenClaims\<close> and \<open>Proof\<close> are declared in a file of the
  repository that is not part of \<open>parse.go\<close>. The claims are \<open>htm\<close>, \<open>htu\<close>, \<open>jti\<close>,
  \<open>iat\<close> (a pointer, \<open>None\<close> when nil) and \<open>nonce\<close> (the field \<open>Nonce\<close>, here
  \<open>ClaimNonce\<close> apart from the option of that name); the proof is the verified token
  with the thumbprint of its key.
\<close>

record ProofTokenClaims =
  Method :: HTTPVerb
  URL :: string
  ID :: string
  IssuedAt :: "Time option"
  ClaimNonce :: string

record Token =
  Raw :: string
  Header :: "string \<rightharpoonup> iface"
  Claims :: ProofTokenClaims

record Proof =
  Token :: Token
  HashedPublicKey :: string

record ParseOptions =
  Nonce :: string
  NonceHasTimestamp :: bool
  TimeWindow :: "Duration option"
  AllowedProofAge :: "Duration option"
  JKT :: string

text \<open>
  The functions of other packages that \<open>parse.go\<close> calls and that are not modelled above
  are parameters: \<open>jwt.ParseWithClaims\<close> (given the token string and the key function, it
  returns the parsed and verified token with its claims, or an error), \<open>url.Parse\<close>, the
  method \<open>String\<close> of \<open>*url.URL\<close>, SHA-256 (writing to the hash never fails) and
  \<open>json.Marshal\<close> on a map. An error of \<open>encoding/json\<close> is a value of that package,
  never one of the error values of this package: \<open>json_Marshal\<close> returns its message, and
  the error is \<open>LibraryError\<close> of it.
\<close>

record extern =
  jwt_ParseWithClaims :: "string \<Rightarrow> (Token \<Rightarrow> error + key) \<Rightarrow> error + Token"
  url_Parse :: "string \<Rightarrow> error + URL"
  url_String :: "URL \<Rightarrow> string"
  sha256_Sum :: "byte list \<Rightarrow> byte list"
  json_Marshal :: "(string \<rightharpoonup> iface) \<Rightarrow> string + byte list"

section \<open>The key decoder\<close>

definition base64urlTrailingPadding :: "string \<Rightarrow> error + byte list" where
  "base64urlTrailingPadding s = DecodeString (TrimRight s ''='')"

definition parseJwk :: "(string \<rightharpoonup> iface) \<Rightarrow> error + key" where
  "parseJwk jwkMap =
     (case as_string (index jwkMap ''kty'') of
        None \<Rightarrow> Inl ErrInvalidProof
      | Some kty \<Rightarrow>
          if kty = ''EC'' then
            (case as_string (index jwkMap ''x'') of
               None \<Rightarrow> Inl ErrInvalidProof
             | Some x \<Rightarrow>
            (case as_string (index jwkMap ''y'') of
               None \<Rightarrow> Inl ErrInvalidProof
             | Some y \<Rightarrow>
            (case as_string (index jwkMap ''crv'') of
               None \<Rightarrow> Inl ErrInvalidProof
             | Some crv \<Rightarrow>
            (case base64urlTrailingPadding x of
               Inl err \<Rightarrow> Inl err
             | Inr xCoordinate \<Rightarrow>
            (case base64urlTrailingPadding y of
               Inl err \<Rightarrow> Inl err
             | Inr yCoordinate \<Rightarrow>
                 if crv = ''P-256'' then
                   Inr (ECDSA_PublicKey P256 (SetBytes xCoordinate) (SetBytes yCoordinate))
                 else if crv = ''P-384'' then
                   Inr (ECDSA_PublicKey P384 (SetBytes xCoordinate) (SetBytes yCoordinate))
                 else if crv = ''P-521'' then
                   Inr (ECDSA_PublicKey P521 (SetBytes xCoordinate) (SetBytes yCoordinate))
                 else Inl ErrUnsupportedCurve)))))
          else if kty = ''RSA'' then
            (case as_string (index jwkMap ''e'') of
               None \<Rightarrow> Inl ErrInvalidProof
             | Some e \<Rightarrow>
            (case as_string (index jwkMap ''n'') of
               None \<Rightarrow> Inl ErrInvalidProof
             | Some n \<Rightarrow>
            (case base64urlTrailingPadding e of
               Inl err \<Rightarrow> Inl err
             | Inr exponent \<Rightarrow>
            (case base64urlTrailingPadding n of
               Inl err \<Rightarrow> Inl err
             | Inr modulus \<Rightarrow>
                 Inr (RSA_PublicKey (SetBytes modulus) (Uint64 (SetBytes exponent)))))))
          else if kty = ''OKP'' then
            (case as_string (index jwkMap ''x'') of
               None \<Rightarrow> Inl ErrInvalidProof
             | Some x \<Rightarrow>
            (case base64urlTrailingPadding x of
               Inl err \<Rightarrow> Inl err
             | Inr publicKey \<Rightarrow> Inr (Ed25519_PublicKey publicKey)))
          else if kty = ''OCT'' then Inl ErrUnsupportedKeyAlgorithm
          else Inl ErrUnsupportedKeyAlgorithm)"

definition keyFunc :: "Token \<Rightarrow> error + key" where
  "keyFunc t =
     (case index (Header t) ''jwk'' of
        VNil \<Rightarrow> Inl ErrMissingJWK
      | VMap jwkMap \<Rightarrow> parseJwk jwkMap
      | _ \<Rightarrow> Inl ErrMissingJWK)"

section \<open>The thumbprint calculator\<close>

text \<open>
  \<open>keyParts\<close> is the map that \<open>getKeyStringRepresentation\<close> builds in its local variable
  of that name before it marshals it. \<open>bits/8\<close> and \<open>bits%8\<close> truncate towards zero;
  \<open>make\<close> panics on a negative length.
\<close>

definition keyParts :: "key \<Rightarrow> (error + (string \<rightharpoonup> iface)) outcome" where
  "keyParts key =
     (case key of
        ECDSA_PublicKey curve X Y \<Rightarrow>
          (let bits = BitSize curve;
               keyCurveBytesSize = bits sdiv 8 + bits smod 8
           in if keyCurveBytesSize < 0 then Panic
              else
                (case FillBytes X (nat keyCurveBytesSize) of
                   Panic \<Rightarrow> Panic
                 | Return xb \<Rightarrow>
                (case FillBytes Y (nat keyCurveBytesSize) of
                   Panic \<Rightarrow> Panic
                 | Return yb \<Rightarrow>
                     Return (Inr [''kty'' \<mapsto> VString ''EC'',
                                  ''crv'' \<mapsto> VString (Name curve),
                                  ''x'' \<mapsto> VString (EncodeToString xb),
                                  ''y'' \<mapsto> VString (EncodeToString yb)]))))
      | RSA_PublicKey N E \<Rightarrow>
          Return (Inr [''kty'' \<mapsto> VString ''RSA'',
                       ''e'' \<mapsto> VString (EncodeToString (Bytes (sint E))),
                       ''n'' \<mapsto> VString (EncodeToString (Bytes N))])
      | Ed25519_PublicKey k \<Rightarrow>
          Return (Inr [''kty'' \<mapsto> VString ''OKP'',
                       ''crv'' \<mapsto> VString ''Ed25519'',
                       ''x'' \<mapsto> VString (EncodeToString k)])
      | OtherKey \<Rightarrow> Return (Inl ErrUnsupportedKeyAlgorithm))"

definition getKeyStringRepresentation :: "extern \<Rightarrow> key \<Rightarrow> (error + byte list) outcome" where
  "getKeyStringRepresentation ext key =
     (case keyParts key of
        Panic \<Rightarrow> Panic
      | Return (Inl err) \<Rightarrow> Return (Inl err)
      | Return (Inr parts) \<Rightarrow>
          (case json_Marshal ext parts of
             Inl msg \<Rightarrow> Return (Inl (LibraryError msg))
           | Inr bytes \<Rightarrow> Return (Inr bytes)))"

definition getThumbprintableJwkJSONbytes ::
    "extern \<Rightarrow> (string \<rightharpoonup> iface) \<Rightarrow> (error + byte list) outcome" where
  "getThumbprintableJwkJSONbytes ext jwk =
     (case parseJwk jwk of
        Inl err \<Rightarrow> Return (Inl err)
      | Inr minimalJwk \<Rightarrow>
          (case getKeyStringRepresentation ext minimalJwk of
             Panic \<Rightarrow> Panic
           | Return (Inl err) \<Rightarrow> Return (Inl err)
           | Return (Inr jwkHeaderJSONBytes) \<Rightarrow> Return (Inr jwkHeaderJSONBytes)))"

section \<open>The proof validator\<close>

text \<open>
  The check of \<open>iat\<close> in \<open>Parse\<close> (the block guarded by \<open>!opts.NonceHasTimestamp\<close>). The
  clock is read once for each comparison: \<open>now1\<close> and \<open>now2\<close> are the two readings of
  \<open>time.Now()\<close>. The result is the error the block returns with, if any. \<open>-past\<close> is the
  negation of a 64-bit integer.
\<close>

definition iat_window :: "ParseOptions \<Rightarrow> Time \<Rightarrow> Time \<Rightarrow> Time \<Rightarrow> error option" where
  "iat_window opts iat now1 now2 =
     (if \<not> NonceHasTimestamp opts then
        (let past = (case AllowedProofAge opts of
                       None \<Rightarrow> DEFAULT_ALLOWED_PROOF_AGE | Some d \<Rightarrow> d)
         in if Before iat (Add now1 (- past)) then Some (Join [ErrInvalidProof, ErrExpired])
            else
              (let future = (case TimeWindow opts of
                               None \<Rightarrow> DEFAULT_ALLOWED_TIME_WINDOW | Some d \<Rightarrow> d)
               in if After iat (Add now2 future) then Some (Join [ErrInvalidProof, ErrFuture])
                  else None))
      else None)"

text \<open>
  \<open>httpURL\<close> is a pointer: an address of the store of URL values, or nil. The expression
  \<open>&(*httpURL)\<close> takes the address of the variable that \<open>httpURL\<close> points to, which is
  \<open>httpURL\<close> again (and panics on nil): no URL value is copied, and the two assignments
  that follow write through the caller's pointer. \<open>claimURL\<close> is fresh from \<open>url.Parse\<close>
  and local. \<open>Parse\<close> returns its outcome and the store it leaves behind.
\<close>

type_synonym store = "nat \<Rightarrow> URL"

definition Parse ::
    "extern \<Rightarrow> Time \<Rightarrow> Time \<Rightarrow> store \<Rightarrow> string \<Rightarrow> HTTPVerb \<Rightarrow> nat option \<Rightarrow> ParseOptions
       \<Rightarrow> (error + Proof) outcome \<times> store" where
  "Parse ext now1 now2 st tokenString httpMethod httpURL opts =
     (case jwt_ParseWithClaims ext tokenString keyFunc of
        Inl err \<Rightarrow> (Return (Inl (Join [ErrInvalidProof, err])), st)
      | Inr dpopToken \<Rightarrow>
          (let claims = Claims dpopToken
           in if Method claims = [] \<or> URL claims = [] \<or> ID claims = [] \<or> IssuedAt claims = None
              then (Return (Inl (Join [ErrInvalidProof, ErrMissingClaims])), st)
              else
          (let typeHeader = index (Header dpopToken) ''typ''
           in case (if is_nil typeHeader then Return True
                    else (case assert_string typeHeader of
                            Panic \<Rightarrow> Panic
                          | Return s \<Rightarrow> Return (s \<noteq> ''dpop+jwt''))) of
                Panic \<Rightarrow> (Panic, st)
              | Return True \<Rightarrow> (Return (Inl (Join [ErrInvalidProof, ErrUnsupportedJWTType])), st)
              | Return False \<Rightarrow>
          (case httpURL of
             None \<Rightarrow> (Panic, st)
           | Some p \<Rightarrow>
          (let st1 = st(p := (st p)\<lparr>RawQuery := []\<rparr>);
               st2 = st1(p := (st1 p)\<lparr>Fragment := []\<rparr>)
           in case url_Parse ext (URL claims) of
                Inl err \<Rightarrow> (Return (Inl (Join [ErrInvalidProof, ErrIncorrectHTTPTarget])), st2)
              | Inr parsed \<Rightarrow>
          (let claimURL = parsed\<lparr>RawQuery := [], Fragment := []\<rparr>
           in if httpMethod \<noteq> Method claims \<or> url_String ext (st2 p) \<noteq> url_String ext claimURL
              then (Return (Inl (Join [ErrInvalidProof, ErrIncorrectHTTPTarget])), st2)
              else if Nonce opts \<noteq> [] \<and> Nonce opts \<noteq> ClaimNonce claims
              then (Return (Inl ErrIncorrectNonce), st2)
              else
          (case IssuedAt claims of
             None \<Rightarrow> (Panic, st2)
           | Some iat \<Rightarrow>
          (case iat_window opts iat now1 now2 of
             Some err \<Rightarrow> (Return (Inl err), st2)
           | None \<Rightarrow>
          (case index (Header dpopToken) ''jwk'' of
             VMap jwk \<Rightarrow>
               (case getThumbprintableJwkJSONbytes ext jwk of
                  Panic \<Rightarrow> (Panic, st2)
                | Return (Inl err) \<Rightarrow> (Return (Inl (Join [ErrInvalidProof, err])), st2)
                | Return (Inr jwkJSONbytes) \<Rightarrow>
                    (let b64URLjwkHash = EncodeToString (sha256_Sum ext jwkJSONbytes)
                     in if JKT opts \<noteq> [] \<and> b64URLjwkHash \<noteq> JKT opts
                        then (Return (Inl (Join [ErrInvalidProof, ErrIncorrectJKT])), st2)
                        else (Return (Inr \<lparr>Token = dpopToken,
                                            HashedPublicKey = b64URLjwkHash\<rparr>), st2)))
           | _ \<Rightarrow> (Return (Inl ErrMissingJWK), st2))))))))))"

section \<open>The conditions of the checks\<close>

text \<open>The conditions that \<open>Parse\<close> tests, named so that the theorems can refer to them.\<close>

definition strip_query :: "URL \<Rightarrow> URL" where
  "strip_query u = u\<lparr>RawQuery := [], Fragment := []\<rparr>"

definition claims_present :: "ProofTokenClaims \<Rightarrow> bool" where
  "claims_present c = (Method c \<noteq> [] \<and> URL c \<noteq> [] \<and> ID c \<noteq> [] \<and> IssuedAt c \<noteq> None)"

definition typ_ok :: "Token \<Rightarrow> bool" where
  "typ_ok t = (as_string (index (Header t) ''typ'') = Some ''dpop+jwt'')"

definition target_ok :: "extern \<Rightarrow> HTTPVerb \<Rightarrow> URL \<Rightarrow> ProofTokenClaims \<Rightarrow> bool" where
  "target_ok ext httpMethod u c =
     (case url_Parse ext (URL c) of
        Inl err \<Rightarrow> False
      | Inr parsed \<Rightarrow>
          httpMethod = Method c
          \<and> url_String ext (strip_query u) = url_String ext (strip_query parsed))"

definition nonce_ok :: "ParseOptions \<Rightarrow> ProofTokenClaims \<Rightarrow> bool" where
  "nonce_ok opts c = (Nonce opts = [] \<or> Nonce opts = ClaimNonce c)"

text \<open>The thumbprint of the key in the token's header, when it can be computed.\<close>

definition thumbprint :: "extern \<Rightarrow> Token \<Rightarrow> string option" where
  "thumbprint ext t =
     (case index (Header t) ''jwk'' of
        VMap jwk \<Rightarrow>
          (case getThumbprintableJwkJSONbytes ext jwk of
             Return (Inr jwkJSONbytes) \<Rightarrow> Some (EncodeToString (sha256_Sum ext jwkJSONbytes))
           | _ \<Rightarrow> None)
      | _ \<Rightarrow> None)"

definition jkt_ok :: "ParseOptions \<Rightarrow> string \<Rightarrow> bool" where
  "jkt_ok opts jkt = (JKT opts = [] \<or> jkt = JKT opts)"












text \<open>
  The keys of the supported families: an EC key on P-256, P-384 or P-521 whose coordinates
  are non-negative and below \<open>2 ^ BitSize\<close> (as every element of the curve's field is), an
  RSA key with non-negative modulus and exponent, and an Ed25519 key.
\<close>

definition supported_curve :: "CurveParams \<Rightarrow> bool" where
  "supported_curve c = (c = P256 \<or> c = P384 \<or> c = P521)"

fun supported_key :: "key \<Rightarrow> bool" where
  "supported_key (ECDSA_PublicKey c X Y) =
     (supported_curve c \<and> 0 \<le> X \<and> X < 2 ^ nat (BitSize c) \<and> 0 \<le> Y \<and> Y < 2 ^ nat (BitSize c))"
| "supported_key (RSA_PublicKey N E) = (0 \<le> N \<and> 0 \<le> sint E)"
| "supported_key (Ed25519_PublicKey k) = True"
| "supported_key OtherKey = False"

text \<open>The two durations of the time window, with their defaults.\<close>

definition allowedProofAge :: "ParseOptions \<Rightarrow> Duration" where
  "allowedProofAge opts =
     (case AllowedProofAge opts of None \<Rightarrow> DEFAULT_ALLOWED_PROOF_AGE | Some d \<Rightarrow> d)"

definition allowedTimeWindow :: "ParseOptions \<Rightarrow> Duration" where
  "allowedTimeWindow opts =
     (case TimeWindow opts of None \<Rightarrow> DEFAULT_ALLOWED_TIME_WINDOW | Some d \<Rightarrow> d)"

text \<open>
  The end of \<open>Parse\<close>, from the extraction of the key to the result: the outcome of a call
  that has passed the checks before it.
\<close>

definition Parse_key :: "extern \<Rightarrow> Token \<Rightarrow> ParseOptions \<Rightarrow> (error + Proof) outcome" where
  "Parse_key ext tok opts =
     (case index (Header tok) ''jwk'' of
        VMap jwk \<Rightarrow>
          (case getThumbprintableJwkJSONbytes ext jwk of
             Panic \<Rightarrow> Panic
           | Return (Inl err) \<Rightarrow> Return (Inl (Join [ErrInvalidProof, err]))
           | Return (Inr jwkJSONbytes) \<Rightarrow>
               (let b64URLjwkHash = EncodeToString (sha256_Sum ext jwkJSONbytes)
                in if JKT opts \<noteq> [] \<and> b64URLjwkHash \<noteq> JKT opts
                   then Return (Inl (Join [ErrInvalidProof, ErrIncorrectJKT]))
                   else Return (Inr \<lparr>Token = tok, HashedPublicKey = b64URLjwkHash\<rparr>)))
      | _ \<Rightarrow> Return (Inl ErrMissingJWK))"

text \<open>The errors that decoding and re-encoding a key can end with.\<close>

definition key_error :: "error \<Rightarrow> bool" where
  "key_error e = (e = ErrInvalidProof \<or> e = CorruptInputError \<or> e = ErrUnsupportedCurve
                   \<or> e = ErrUnsupportedKeyAlgorithm \<or> (\<exists>msg. e = LibraryError msg))"

section \<open>Stand-ins for the library parameters, and sample inputs\<close>

text \<open>
  The theorems hold for every value of the library parameters. To run \<open>Parse\<close> on sample
  inputs, the parameters are given stand-ins: a JWT layer that looks the token string up in
  a table and calls the key function on the token found, a URL parser that is a table, the
  serializer of a URL that has only scheme, host, path, query and fragment, a 32-byte
  digest that is not SHA-256, and a marshaller that writes the string members named
  \<open>crv\<close>, \<open>e\<close>, \<open>kty\<close>, \<open>n\<close>, \<open>x\<close>, \<open>y\<close> of a map in this (sorted) order.
\<close>

definition stub_jwt ::
    "(string \<rightharpoonup> Token) \<Rightarrow> string \<Rightarrow> (Token \<Rightarrow> error + key) \<Rightarrow> error + Token" where
  "stub_jwt table tokenString kf =
     (case table tokenString of
        None \<Rightarrow> Inl (LibraryError ''token is malformed'')
      | Some t \<Rightarrow>
          (case kf t of
             Inl err \<Rightarrow> Inl (Join [LibraryError ''token is unverifiable'', err])
           | Inr k \<Rightarrow> Inr t))"

definition stub_url_Parse :: "(string \<rightharpoonup> URL) \<Rightarrow> string \<Rightarrow> error + URL" where
  "stub_url_Parse table s =
     (case table s of None \<Rightarrow> Inl (LibraryError ''invalid URL'') | Some u \<Rightarrow> Inr u)"

definition stub_url_String :: "URL \<Rightarrow> string" where
  "stub_url_String u =
     Scheme u @ ''://'' @ Host u @ Path u
       @ (if ForceQuery u \<or> RawQuery u \<noteq> [] then ''?'' @ RawQuery u else [])
       @ (if Fragment u \<noteq> [] then ''#'' @ Fragment u else [])"

definition stub_digest :: "byte list \<Rightarrow> byte list" where
  "stub_digest bs = map (\<lambda>i. foldl (\<lambda>h b. h * 31 + b + of_nat i) 0 bs) [0..<32]"

definition stub_json_member :: "(string \<rightharpoonup> iface) \<Rightarrow> string \<Rightarrow> string list" where
  "stub_json_member m k =
     (case m k of
        Some (VString s) \<Rightarrow> [[CHR 0x22] @ k @ [CHR 0x22] @ '':'' @ [CHR 0x22] @ s @ [CHR 0x22]]
      | _ \<Rightarrow> [])"

fun join_commas :: "string list \<Rightarrow> string" where
  "join_commas [] = []"
| "join_commas [s] = s"
| "join_commas (s # t # ss) = s @ '','' @ join_commas (t # ss)"

definition stub_json_Marshal :: "(string \<rightharpoonup> iface) \<Rightarrow> string + byte list" where
  "stub_json_Marshal m =
     Inr (map of_char
            (''{'' @ join_commas (concat (map (stub_json_member m)
                                     [''crv'', ''e'', ''kty'', ''n'', ''x'', ''y''])) @ ''}''))"

definition example_url :: URL where
  "example_url = \<lparr>Scheme = ''https'', Opaque = [], User = None, Host = ''example.com'',
                   Path = ''/token'', RawPath = [], OmitHost = False, ForceQuery = False,
                   RawQuery = [], Fragment = [], RawFragment = []\<rparr>"

definition stub_ext :: "(string \<rightharpoonup> Token) \<Rightarrow> extern" where
  "stub_ext table =
     \<lparr>jwt_ParseWithClaims = stub_jwt table,
      url_Parse = stub_url_Parse
        [''https://example.com/token'' \<mapsto> example_url,
         ''https://example.com/token?foo=bar'' \<mapsto> example_url\<lparr>RawQuery := ''foo=bar''\<rparr>],
      url_String = stub_url_String,
      sha256_Sum = stub_digest,
      json_Marshal = stub_json_Marshal\<rparr>"

text \<open>An Ed25519 key (the one of RFC 8037, appendix A) with two optional members.\<close>

definition example_jwk :: "string \<rightharpoonup> iface" where
  "example_jwk =
     [''kty'' \<mapsto> VString ''OKP'', ''crv'' \<mapsto> VString ''Ed25519'',
      ''x'' \<mapsto> VString ''11qYAYKxCrfVS_7TyWQHOg7hcvPapiMlrwIaaPcHURo'',
      ''kid'' \<mapsto> VString ''key-1'', ''use'' \<mapsto> VString ''sig'']"

text \<open>
  The same key with its required members only, no \<open>crv\<close>, and padding after \<open>x\<close>.
\<close>

definition example_jwk_bare :: "string \<rightharpoonup> iface" where
  "example_jwk_bare =
     [''kty'' \<mapsto> VString ''OKP'',
      ''x'' \<mapsto> VString ''11qYAYKxCrfVS_7TyWQHOg7hcvPapiMlrwIaaPcHURo='']"

text \<open>
  A proof for \<open>POST https://example.com/token\<close>, issued at second 1700000000, and variants
  of it: with a query string in \<open>htu\<close>, with the number 123 as \<open>typ\<close> header, with the
  bare key, and issued nine billion seconds later.
\<close>

definition example_claims :: ProofTokenClaims where
  "example_claims = \<lparr>Method = ''POST'', URL = ''https://example.com/token'', ID = ''jti-1'',
                      IssuedAt = Some 1700000000000000000, ClaimNonce = []\<rparr>"

definition example_token :: Token where
  "example_token =
     \<lparr>Raw = ''proof'',
      Header = [''typ'' \<mapsto> VString ''dpop+jwt'', ''alg'' \<mapsto> VString ''EdDSA'',
                ''jwk'' \<mapsto> VMap example_jwk],
      Claims = example_claims\<rparr>"

definition example_tokens :: "string \<rightharpoonup> Token" where
  "example_tokens =
     [''proof'' \<mapsto> example_token,
      ''proof-htu-query'' \<mapsto>
         example_token\<lparr>Claims := example_claims\<lparr>URL := ''https://example.com/token?foo=bar''\<rparr>\<rparr>,
      ''proof-typ-number'' \<mapsto>
         example_token\<lparr>Header := (Header example_token)(''typ'' \<mapsto> VFloat64 0x405EC00000000000)\<rparr>,
      ''proof-bare-jwk'' \<mapsto>
         example_token\<lparr>Header := (Header example_token)
           (''jwk'' \<mapsto> VMap example_jwk_bare)\<rparr>,
      ''proof-far-future'' \<mapsto>
         example_token\<lparr>Claims := example_claims\<lparr>IssuedAt := Some 10700000000000000000\<rparr>\<rparr>]"

text \<open>The caller's URL \<open>https://example.com/token?foo=bar\<close>, at address 0 of the store.\<close>

definition example_store :: store where
  "example_store = (\<lambda>a. example_url\<lparr>RawQuery := ''foo=bar''\<rparr>)"

definition no_options :: ParseOptions where
  "no_options = \<lparr>Nonce = [], NonceHasTimestamp = False, TimeWindow = None,
                  AllowedProofAge = None, JKT = []\<rparr>"

section \<open>Facts about the library functions\<close>

subsection \<open>Base64: decoding what was encoded\<close>

lemma length_encodeURL: "length encodeURL = 64"
  by (simp add: encodeURL_def)

lemma distinct_encodeURL: "distinct encodeURL"
  by (simp add: encodeURL_def)

lemma decodeMap_enc6: "decodeMap (enc6 n) = Some (n mod 64)"
proof -
  have "map_of (zip encodeURL [0..<64]) (encodeURL ! (n mod 64)) = Some ([0..<64] ! (n mod 64))"
    by (rule map_of_zip_nth) (simp_all add: length_encodeURL distinct_encodeURL)
  then show ?thesis by (simp add: decodeMap_def enc6_def)
qed

lemma digits4:
  fixes v :: nat
  assumes "v < 16777216"
  shows "v div 262144 mod 64 * 262144 + v div 4096 mod 64 * 4096 + v div 64 mod 64 * 64
           + v mod 64 = v"
proof -
  have a: "v div 64 div 64 = v div 4096" by (simp add: div_mult2_eq [symmetric])
  have b: "v div 4096 div 64 = v div 262144" by (simp add: div_mult2_eq [symmetric])
  have c: "v div 262144 mod 64 = v div 262144" using assms by simp
  have "v = v div 64 * 64 + v mod 64" by simp
  also have "v div 64 = v div 4096 * 64 + v div 64 mod 64"
    using div_mult_mod_eq [of "v div 64" 64] by (simp add: a)
  also have "v div 4096 = v div 262144 * 64 + v div 4096 mod 64"
    using div_mult_mod_eq [of "v div 4096" 64] by (simp add: b)
  finally show ?thesis by (simp add: c algebra_simps)
qed

lemma digits3:
  fixes v :: nat
  assumes "v < 16777216" "v mod 64 = 0"
  shows "v div 262144 mod 64 * 262144 + v div 4096 mod 64 * 4096 + v div 64 mod 64 * 64 = v"
  using digits4 [OF assms(1)] by (simp only: assms(2) add_0_right)

lemma digits2:
  fixes v :: nat
  assumes "v < 16777216" "v mod 4096 = 0"
  shows "v div 262144 mod 64 * 262144 + v div 4096 mod 64 * 4096 = v"
proof -
  from assms(2) have "4096 dvd v" by (simp add: dvd_eq_mod_eq_0)
  then obtain k where k: "v = 4096 * k" ..
  have z: "v mod 64 = 0" "v div 64 mod 64 = 0" by (simp_all add: k)
  show ?thesis
    using digits4 [OF assms(1)] by (simp only: z mult_zero_left add_0_right)
qed

lemma word_of_nat_byte:
  fixes b :: byte
  assumes "n mod 256 = unat b"
  shows "word_of_nat n = b"
proof -
  have "(word_of_nat n :: byte) = word_of_nat (n mod 256)"
    by (simp add: word_of_nat_eq_iff take_bit_eq_mod)
  then show ?thesis by (simp add: assms)
qed

lemma unat_byte_less: "unat (b :: byte) < 256"
  using unsigned_less [of b] by simp

lemma bytes3:
  fixes a b c :: nat
  assumes "a < 256" "b < 256" "c < 256"
  shows "(a * 65536 + b * 256 + c) div 65536 = a"
    and "(a * 65536 + b * 256 + c) div 256 mod 256 = b"
    and "(a * 65536 + b * 256 + c) mod 256 = c"
    and "a * 65536 + b * 256 + c < 16777216"
proof -
  have e: "a * 65536 + b * 256 + c = (a * 256 + b) * 256 + c" by simp
  have m: "(x * 256 + y) mod 256 = y" "(x * 256 + y) div 256 = x" if "y < 256" for x y :: nat
    using that by simp_all
  show "(a * 65536 + b * 256 + c) div 65536 = a" using assms by simp
  show "(a * 65536 + b * 256 + c) div 256 mod 256 = b"
    by (simp only: e m(2) [OF assms(3)] m(1) [OF assms(2)])
  show "(a * 65536 + b * 256 + c) mod 256 = c"
    by (simp only: e m(1) [OF assms(3)])
  show "a * 65536 + b * 256 + c < 16777216" using assms by simp
qed

lemma decode_quantum4:
  assumes "v < 16777216"
  shows "decode_quanta (enc6 (v div 262144) # enc6 (v div 4096) # enc6 (v div 64) # enc6 v # cs) =
    (case decode_quanta cs of
       Inl e \<Rightarrow> Inl e
     | Inr bs \<Rightarrow> Inr (word_of_nat (v div 65536) # word_of_nat (v div 256) # word_of_nat v # bs))"
  by (simp only: decode_quanta.simps decodeMap_enc6 prod.case option.case Let_def
        digits4 [OF assms])

lemma decode_quantum3:
  assumes "v < 16777216" "v mod 64 = 0"
  shows "decode_quanta [enc6 (v div 262144), enc6 (v div 4096), enc6 (v div 64)] =
    Inr [word_of_nat (v div 65536), word_of_nat (v div 256)]"
  by (simp only: decode_quanta.simps decodeMap_enc6 prod.case option.case Let_def
        digits3 [OF assms])

lemma decode_quantum2:
  assumes "v < 16777216" "v mod 4096 = 0"
  shows "decode_quanta [enc6 (v div 262144), enc6 (v div 4096)] = Inr [word_of_nat (v div 65536)]"
  by (simp only: decode_quanta.simps decodeMap_enc6 prod.case option.case Let_def
        digits2 [OF assms])

lemma decode_encode_quanta: "decode_quanta (encode_quanta bs) = Inr bs"
proof (induction bs rule: encode_quanta.induct)
  case (1 a b c rest)
  let ?v = "unat a * 65536 + unat b * 256 + unat c"
  note B = bytes3 [OF unat_byte_less [of a] unat_byte_less [of b] unat_byte_less [of c]]
  have b0: "word_of_nat (?v div 65536) = a" by (simp only: B(1)) simp
  have b1: "word_of_nat (?v div 256) = b" by (rule word_of_nat_byte) (rule B(2))
  have b2: "word_of_nat ?v = c" by (rule word_of_nat_byte) (rule B(3))
  show ?case
    by (simp only: encode_quanta.simps Let_def decode_quantum4 [OF B(4)] "1.IH" sum.case b0 b1 b2)
next
  case (2 a b)
  let ?v = "unat a * 65536 + unat b * 256"
  have v: "?v = unat a * 65536 + unat b * 256 + 0" by simp
  have z: "(0::nat) < 256" by simp
  note B = bytes3 [OF unat_byte_less [of a] unat_byte_less [of b] z, folded v]
  have m: "?v mod 64 = 0" by simp
  have b0: "word_of_nat (?v div 65536) = a" by (simp only: B(1)) simp
  have b1: "word_of_nat (?v div 256) = b" by (rule word_of_nat_byte) (rule B(2))
  show ?case
    by (simp only: encode_quanta.simps Let_def decode_quantum3 [OF B(4) m] b0 b1)
next
  case (3 a)
  let ?v = "unat a * 65536"
  have v: "?v = unat a * 65536 + 0 * 256 + 0" by simp
  have z: "(0::nat) < 256" by simp
  note B = bytes3 [OF unat_byte_less [of a] z z, folded v]
  have m: "?v mod 4096 = 0" by simp
  have b0: "word_of_nat (?v div 65536) = a" by (simp only: B(1)) simp
  show ?case
    by (simp only: encode_quanta.simps Let_def decode_quantum2 [OF B(4) m] b0)
next
  case 4
  show ?case by simp
qed

lemma enc6_in_alphabet: "enc6 n \<in> set encodeURL"
  by (simp add: enc6_def length_encodeURL)

lemma encode_quanta_alphabet: "set (encode_quanta bs) \<subseteq> set encodeURL"
  by (induction bs rule: encode_quanta.induct) (simp_all add: Let_def enc6_in_alphabet)

lemma alphabet_excludes:
  "CHR ''='' \<notin> set encodeURL" "CHR 0x0A \<notin> set encodeURL" "CHR 0x0D \<notin> set encodeURL"
  by (simp_all add: encodeURL_def)

lemma TrimRight_id:
  assumes "\<forall>c \<in> set s. c \<notin> set cutset"
  shows "TrimRight s cutset = s"
proof -
  have "dropWhile (\<lambda>c. c \<in> set cutset) (rev s) = rev s"
  proof (cases "rev s")
    case Nil
    then show ?thesis by simp
  next
    case (Cons c cs)
    then have "c \<in> set (rev s)" by simp
    then have "c \<notin> set cutset" using assms by simp
    then show ?thesis by (simp add: Cons)
  qed
  then show ?thesis by (simp add: TrimRight_def)
qed

text \<open>Whatever \<open>EncodeToString\<close> writes, \<open>base64urlTrailingPadding\<close> reads back.\<close>

lemma decode_EncodeToString: "base64urlTrailingPadding (EncodeToString bs) = Inr bs"
proof -
  have a: "\<forall>c \<in> set (encode_quanta bs). c \<in> set encodeURL"
    using encode_quanta_alphabet [of bs] by blast
  have t: "TrimRight (encode_quanta bs) ''='' = encode_quanta bs"
    by (rule TrimRight_id) (use a alphabet_excludes(1) in auto)
  have f: "filter (\<lambda>c. c \<noteq> CHR 0x0A \<and> c \<noteq> CHR 0x0D) (encode_quanta bs) = encode_quanta bs"
    using a alphabet_excludes(2,3) by (auto simp: filter_id_conv)
  show ?thesis
    by (simp add: base64urlTrailingPadding_def EncodeToString_def DecodeString_def t f
          decode_encode_quanta)
qed

subsection \<open>Big integers and their bytes\<close>

lemma nat_bytes_0: "nat_bytes 0 = []"
  by (subst nat_bytes.simps) simp

lemma nat_bytes_pos: "n \<noteq> 0 \<Longrightarrow> nat_bytes n = nat_bytes (n div 256) @ [word_of_nat n]"
  by (subst nat_bytes.simps) simp

lemma SetBytes_snoc: "SetBytes (bs @ [b]) = SetBytes bs * 256 + int (unat b)"
  by (simp add: SetBytes_def)

lemma SetBytes_nat_bytes: "SetBytes (nat_bytes n) = int n"
proof (induction n rule: nat_bytes.induct)
  case (1 n)
  show ?case
  proof (cases "n = 0")
    case True
    then show ?thesis by (simp add: nat_bytes_0 SetBytes_def)
  next
    case False
    have u: "unat (word_of_nat n :: byte) = n mod 256"
      by (simp add: unat_of_nat)
    have "SetBytes (nat_bytes n) = SetBytes (nat_bytes (n div 256)) * 256 + int (n mod 256)"
      using False by (simp add: nat_bytes_pos SetBytes_snoc u)
    also have "\<dots> = int (n div 256) * 256 + int (n mod 256)"
      using 1 False by simp
    also have "\<dots> = int n"
      by (simp add: zdiv_int zmod_int)
    finally show ?thesis .
  qed
qed

lemma SetBytes_Bytes: "0 \<le> x \<Longrightarrow> SetBytes (Bytes x) = x"
  by (simp add: Bytes_def SetBytes_nat_bytes)

lemma SetBytes_zeros: "SetBytes (replicate k 0 @ bs) = SetBytes bs"
proof -
  have "foldl (\<lambda>acc b. acc * 256 + unat (b :: byte)) 0 (replicate k 0) = 0"
    by (induction k) simp_all
  then show ?thesis by (simp add: SetBytes_def)
qed

lemma length_nat_bytes: "n < 256 ^ k \<Longrightarrow> length (nat_bytes n) \<le> k"
proof (induction k arbitrary: n)
  case 0
  then show ?case by (simp add: nat_bytes_0)
next
  case (Suc k)
  show ?case
  proof (cases "n = 0")
    case True
    then show ?thesis by (simp add: nat_bytes_0)
  next
    case False
    from Suc.prems have "n div 256 < 256 ^ k"
      by (simp add: less_mult_imp_div_less mult.commute)
    from Suc.IH [OF this] False show ?thesis
      by (simp add: nat_bytes_pos)
  qed
qed

text \<open>A value that fits is written at full width, with zero bytes in front.\<close>

lemma FillBytes_fits:
  assumes "0 \<le> x" "x < 256 ^ n"
  shows "FillBytes x n = Return (replicate (n - length (Bytes x)) 0 @ Bytes x)"
    and "length (replicate (n - length (Bytes x)) 0 @ Bytes x) = n"
    and "SetBytes (replicate (n - length (Bytes x)) 0 @ Bytes x) = x"
proof -
  have "nat \<bar>x\<bar> < 256 ^ n"
    using assms by (simp add: nat_less_iff)
  then have l: "length (Bytes x) \<le> n"
    unfolding Bytes_def by (rule length_nat_bytes)
  then show "FillBytes x n = Return (replicate (n - length (Bytes x)) 0 @ Bytes x)"
    by (simp add: FillBytes_def Let_def)
  show "length (replicate (n - length (Bytes x)) 0 @ Bytes x) = n"
    using l by simp
  show "SetBytes (replicate (n - length (Bytes x)) 0 @ Bytes x) = x"
    using assms(1) by (simp add: SetBytes_zeros SetBytes_Bytes)
qed

subsection \<open>Reading maps and interface values\<close>

lemma index_upd_other: "k \<noteq> k' \<Longrightarrow> index (m(k' := v)) k = index m k"
  by (simp add: index_def)

lemma as_string_VString: "as_string (VString s) = Some s"
  by (simp add: as_string_def)

lemma SetBytes_nonneg: "0 \<le> SetBytes bs"
  by (simp add: SetBytes_def)

lemma Uint64_nonneg: "0 \<le> x \<Longrightarrow> Uint64 x = word_of_int x"
  by (simp add: Uint64_def)

lemma sint_64_less: "sint (w :: 64 word) < 9223372036854775808"
  using sint_lt [of w] by simp

lemma encode_example:
  "EncodeToString [128, 0, 0, 0, 0, 0, 0, 0] = ''gAAAAAAAAAA''"
  "EncodeToString [1] = ''AQ''"
  by (simp_all add: EncodeToString_def enc6_def encodeURL_def)

lemma decode_example:
  "base64urlTrailingPadding ''gAAAAAAAAAA'' = Inr [128, 0, 0, 0, 0, 0, 0, 0]"
  "base64urlTrailingPadding ''AQ'' = Inr [1]"
  using decode_EncodeToString [of "[128, 0, 0, 0, 0, 0, 0, 0]"] decode_EncodeToString [of "[1]"]
  by (simp_all only: encode_example)

section \<open>The key decoder: errors and the RSA exponent\<close>

text \<open>
  Claim C6, as amended. For every JWK map: a \<open>kty\<close> that is missing or not a string fails
  with \<open>ErrInvalidProof\<close>. With \<open>kty = "EC"\<close>, a \<open>crv\<close> outside P-256, P-384 and P-521
  fails with \<open>ErrUnsupportedCurve\<close> when \<open>x\<close>, \<open>y\<close> and \<open>crv\<close> are strings and \<open>x\<close> and
  \<open>y\<close> decode (these are checked first), and fails with some error in every case. A
  string \<open>kty\<close> other than \<open>EC\<close>, \<open>RSA\<close> and \<open>OKP\<close> (so also \<open>OCT\<close>) fails with
  \<open>ErrUnsupportedKeyAlgorithm\<close>. With \<open>kty = "OKP"\<close> and a string \<open>x\<close> that decodes, the
  decoder succeeds whatever \<open>crv\<close> is set to, a non-string or no value included.
\<close>

theorem parseJwk_error_taxonomy:
  "(as_string (index jwkMap ''kty'') = None \<longrightarrow> parseJwk jwkMap = Inl ErrInvalidProof)
   \<and> (index jwkMap ''kty'' = VString ''EC'' \<and> index jwkMap ''x'' = VString x
        \<and> index jwkMap ''y'' = VString y \<and> index jwkMap ''crv'' = VString crv
        \<and> base64urlTrailingPadding x = Inr xb \<and> base64urlTrailingPadding y = Inr yb
        \<and> crv \<notin> {''P-256'', ''P-384'', ''P-521''}
       \<longrightarrow> parseJwk jwkMap = Inl ErrUnsupportedCurve)
   \<and> (index jwkMap ''kty'' = VString ''EC''
        \<and> as_string (index jwkMap ''crv'') \<notin> {Some ''P-256'', Some ''P-384'', Some ''P-521''}
       \<longrightarrow> (\<exists>err. parseJwk jwkMap = Inl err))
   \<and> (index jwkMap ''kty'' = VString kty \<and> kty \<notin> {''EC'', ''RSA'', ''OKP''}
       \<longrightarrow> parseJwk jwkMap = Inl ErrUnsupportedKeyAlgorithm)
   \<and> (index jwkMap ''kty'' = VString ''OKP'' \<and> index jwkMap ''x'' = VString x
        \<and> base64urlTrailingPadding x = Inr pk
       \<longrightarrow> parseJwk (jwkMap(''crv'' := c)) = Inr (Ed25519_PublicKey pk))"
proof (intro conjI impI)
  assume "as_string (index jwkMap ''kty'') = None"
  then show "parseJwk jwkMap = Inl ErrInvalidProof"
    by (simp add: parseJwk_def)
next
  assume "index jwkMap ''kty'' = VString ''EC'' \<and> index jwkMap ''x'' = VString x
        \<and> index jwkMap ''y'' = VString y \<and> index jwkMap ''crv'' = VString crv
        \<and> base64urlTrailingPadding x = Inr xb \<and> base64urlTrailingPadding y = Inr yb
        \<and> crv \<notin> {''P-256'', ''P-384'', ''P-521''}"
  then show "parseJwk jwkMap = Inl ErrUnsupportedCurve"
    by (simp add: parseJwk_def as_string_VString)
next
  assume "index jwkMap ''kty'' = VString ''EC''
        \<and> as_string (index jwkMap ''crv'') \<notin> {Some ''P-256'', Some ''P-384'', Some ''P-521''}"
  then show "\<exists>err. parseJwk jwkMap = Inl err"
    by (auto simp: parseJwk_def as_string_VString split: option.splits sum.splits)
next
  assume "index jwkMap ''kty'' = VString kty \<and> kty \<notin> {''EC'', ''RSA'', ''OKP''}"
  then show "parseJwk jwkMap = Inl ErrUnsupportedKeyAlgorithm"
    by (simp add: parseJwk_def as_string_VString)
next
  assume a: "index jwkMap ''kty'' = VString ''OKP'' \<and> index jwkMap ''x'' = VString x
        \<and> base64urlTrailingPadding x = Inr pk"
  have "index (jwkMap(''crv'' := c)) ''kty'' = VString ''OKP''"
       "index (jwkMap(''crv'' := c)) ''x'' = VString x"
    using a by (simp_all add: index_upd_other)
  then show "parseJwk (jwkMap(''crv'' := c)) = Inr (Ed25519_PublicKey pk)"
    using a by (simp add: parseJwk_def as_string_VString)
qed

text \<open>
  Claim C6 as stated fails: an EC map with curve \<open>P-224\<close> and no coordinates is rejected
  with \<open>ErrInvalidProof\<close>, not \<open>ErrUnsupportedCurve\<close>, and an OKP map without \<open>x\<close> does
  not succeed.
\<close>

theorem parseJwk_error_taxonomy_counterexample:
  "parseJwk [''kty'' \<mapsto> VString ''EC'', ''crv'' \<mapsto> VString ''P-224''] = Inl ErrInvalidProof
   \<and> parseJwk [''kty'' \<mapsto> VString ''EC'', ''crv'' \<mapsto> VString ''P-224''] \<noteq> Inl ErrUnsupportedCurve
   \<and> parseJwk [''kty'' \<mapsto> VString ''OKP'', ''crv'' \<mapsto> VString ''Ed25519''] = Inl ErrInvalidProof"
  by (simp add: parseJwk_def index_def as_string_def)

text \<open>Claim C6, as amended, at sample maps for each of its cases.\<close>

theorem parseJwk_error_taxonomy_witness:
  "parseJwk [''alg'' \<mapsto> VString ''ES256''] = Inl ErrInvalidProof
   \<and> parseJwk [''kty'' \<mapsto> VString ''EC'', ''x'' \<mapsto> VString ''AQ'', ''y'' \<mapsto> VString ''AQ'',
               ''crv'' \<mapsto> VString ''P-224''] = Inl ErrUnsupportedCurve
   \<and> (\<exists>err. parseJwk [''kty'' \<mapsto> VString ''EC'', ''crv'' \<mapsto> VString ''P-224''] = Inl err)
   \<and> parseJwk [''kty'' \<mapsto> VString ''OCT''] = Inl ErrUnsupportedKeyAlgorithm
   \<and> parseJwk [''kty'' \<mapsto> VString ''OKP'', ''x'' \<mapsto> VString ''AQ'', ''crv'' \<mapsto> VString ''X25519'']
       = Inr (Ed25519_PublicKey [1])
   \<and> parseJwk ([''kty'' \<mapsto> VString ''OKP'', ''x'' \<mapsto> VString ''AQ''](''crv'' := None))
       = Inr (Ed25519_PublicKey [1])"
proof -
  let ?ec = "[''kty'' \<mapsto> VString ''EC'', ''x'' \<mapsto> VString ''AQ'', ''y'' \<mapsto> VString ''AQ'',
              ''crv'' \<mapsto> VString ''P-224'']"
  let ?okp = "[''kty'' \<mapsto> VString ''OKP'', ''x'' \<mapsto> VString ''AQ'']"
  have 1: "parseJwk [''alg'' \<mapsto> VString ''ES256''] = Inl ErrInvalidProof"
    using parseJwk_error_taxonomy [where jwkMap = "[''alg'' \<mapsto> VString ''ES256'']"]
    by (simp add: index_def as_string_def)
  have 2: "parseJwk ?ec = Inl ErrUnsupportedCurve"
    using parseJwk_error_taxonomy [where jwkMap = ?ec and x = "''AQ''" and y = "''AQ''"
        and crv = "''P-224''" and xb = "[1]" and yb = "[1]"]
    by (simp add: index_def decode_example)
  have 3: "\<exists>err. parseJwk [''kty'' \<mapsto> VString ''EC'', ''crv'' \<mapsto> VString ''P-224''] = Inl err"
    using parseJwk_error_taxonomy
      [where jwkMap = "[''kty'' \<mapsto> VString ''EC'', ''crv'' \<mapsto> VString ''P-224'']"]
    by (simp add: index_def as_string_def)
  have 4: "parseJwk [''kty'' \<mapsto> VString ''OCT''] = Inl ErrUnsupportedKeyAlgorithm"
    using parseJwk_error_taxonomy
      [where jwkMap = "[''kty'' \<mapsto> VString ''OCT'']" and kty = "''OCT''"]
    by (simp add: index_def)
  have 5: "parseJwk (?okp(''crv'' := c)) = Inr (Ed25519_PublicKey [1])" for c
    using parseJwk_error_taxonomy [where jwkMap = ?okp and x = "''AQ''" and pk = "[1]" and c = c]
    by (simp add: index_def decode_example)
  from 1 2 3 4 5 [of "Some (VString ''X25519'')"] 5 [of None] show ?thesis
    by (intro conjI)
qed

text \<open>
  Claim C10. For an RSA JWK whose \<open>e\<close> and \<open>n\<close> are strings that decode, the decoder
  succeeds whatever the size of the exponent, and the exponent it stores is the low 64 bits
  of the decoded big-endian value, read as a signed integer; when that value is \<open>2 ^ 63\<close>
  or more, the stored exponent differs from it.
\<close>

theorem parseJwk_rsa_exponent_truncated:
  assumes "index jwkMap ''kty'' = VString ''RSA''"
    and "index jwkMap ''e'' = VString e"
    and "index jwkMap ''n'' = VString n"
    and "base64urlTrailingPadding e = Inr exponent"
    and "base64urlTrailingPadding n = Inr modulus"
  shows "\<exists>E. parseJwk jwkMap = Inr (RSA_PublicKey (SetBytes modulus) E)
           \<and> E = word_of_int (SetBytes exponent)
           \<and> sint E = signed_take_bit 63 (SetBytes exponent)
           \<and> (2 ^ 63 \<le> SetBytes exponent \<longrightarrow> sint E \<noteq> SetBytes exponent)"
proof -
  let ?E = "word_of_int (SetBytes exponent) :: 64 word"
  have p: "parseJwk jwkMap = Inr (RSA_PublicKey (SetBytes modulus) ?E)"
    using assms by (simp add: parseJwk_def as_string_VString Uint64_nonneg SetBytes_nonneg)
  have s: "sint ?E = signed_take_bit 63 (SetBytes exponent)"
    by (simp add: sint_sbintrunc')
  have "sint ?E \<noteq> SetBytes exponent" if "2 ^ 63 \<le> SetBytes exponent"
    using that sint_64_less [of ?E] by simp
  with p s show ?thesis by blast
qed

text \<open>
  Claim C10 at \<open>e = "gAAAAAAAAAA"\<close>, the eight bytes \<open>80 00 00 00 00 00 00 00\<close>: the value
  is \<open>2 ^ 63\<close> and the stored exponent is \<open>- 2 ^ 63\<close>.
\<close>

theorem parseJwk_rsa_exponent_truncated_witness:
  "parseJwk [''kty'' \<mapsto> VString ''RSA'', ''e'' \<mapsto> VString ''gAAAAAAAAAA'', ''n'' \<mapsto> VString ''AQ'']
     = Inr (RSA_PublicKey 1 (- 9223372036854775808))
   \<and> SetBytes [128, 0, 0, 0, 0, 0, 0, 0] = 9223372036854775808
   \<and> sint (- 9223372036854775808 :: 64 word) = - 9223372036854775808"
proof -
  let ?m = "[''kty'' \<mapsto> VString ''RSA'', ''e'' \<mapsto> VString ''gAAAAAAAAAA'', ''n'' \<mapsto> VString ''AQ'']"
  have h: "index ?m ''kty'' = VString ''RSA''" "index ?m ''e'' = VString ''gAAAAAAAAAA''"
    "index ?m ''n'' = VString ''AQ''"
    by (simp_all add: index_def)
  note d = decode_example
  have v: "SetBytes [128, 0, 0, 0, 0, 0, 0, 0] = 9223372036854775808" "SetBytes [1] = 1"
    by (simp_all add: SetBytes_def)
  show ?thesis
    using parseJwk_rsa_exponent_truncated [OF h d] by (simp add: v)
qed

section \<open>The canonical form of a key\<close>

lemma curve_bytes:
  "BitSize P256 sdiv 8 + BitSize P256 smod 8 = 32"
  "BitSize P384 sdiv 8 + BitSize P384 smod 8 = 48"
  "BitSize P521 sdiv 8 + BitSize P521 smod 8 = 66"
  by (simp_all add: P256_def P384_def P521_def signed_divide_int_def signed_modulo_int_def)

lemma curve_fits:
  "x < 2 ^ nat (BitSize P256) \<Longrightarrow> x < 256 ^ 32"
  "x < 2 ^ nat (BitSize P384) \<Longrightarrow> x < 256 ^ 48"
  "x < 2 ^ nat (BitSize P521) \<Longrightarrow> x < 256 ^ 66"
  for x :: int
  by (simp_all add: P256_def P384_def P521_def)

text \<open>The map built for an EC key whose coordinates fit the buffers.\<close>

lemma keyParts_EC:
  assumes "BitSize c sdiv 8 + BitSize c smod 8 = int n"
    and "0 \<le> X" "X < 256 ^ n" "0 \<le> Y" "Y < 256 ^ n"
  shows "keyParts (ECDSA_PublicKey c X Y) =
     Return (Inr [''kty'' \<mapsto> VString ''EC'', ''crv'' \<mapsto> VString (Name c),
        ''x'' \<mapsto> VString (EncodeToString (replicate (n - length (Bytes X)) 0 @ Bytes X)),
        ''y'' \<mapsto> VString (EncodeToString (replicate (n - length (Bytes Y)) 0 @ Bytes Y))])"
  using assms FillBytes_fits(1) [of X n] FillBytes_fits(1) [of Y n]
  by (simp add: keyParts_def Let_def)

lemma Uint64_sint: "0 \<le> sint E \<Longrightarrow> Uint64 (sint E) = E"
  by (simp add: Uint64_nonneg)

lemma getKeyStringRepresentation_parts:
  "keyParts key = Return (Inr parts) \<Longrightarrow>
   getKeyStringRepresentation ext key =
     (case json_Marshal ext parts of
        Inl msg \<Rightarrow> Return (Inl (LibraryError msg))
      | Inr bytes \<Rightarrow> Return (Inr bytes))"
  by (simp add: getKeyStringRepresentation_def)

lemma Bytes_small: "Bytes 1 = [1]" "Bytes 2 = [2]" "Bytes 65537 = [1, 0, 1]"
  by (simp_all add: Bytes_def nat_bytes_pos nat_bytes_0)

text \<open>
  Claim C5. For every key of a supported family, \<open>getKeyStringRepresentation\<close> builds a
  map (and marshals it), and \<open>parseJwk\<close> applied to that map succeeds and returns the key
  itself: the same curve and coordinates, the same modulus and exponent, the same point.
\<close>

theorem decode_encode_key:
  assumes "supported_key key"
  shows "\<exists>parts. keyParts key = Return (Inr parts)
           \<and> getKeyStringRepresentation ext key =
                 (case json_Marshal ext parts of
                    Inl msg \<Rightarrow> Return (Inl (LibraryError msg))
                  | Inr bytes \<Rightarrow> Return (Inr bytes))
           \<and> parseJwk parts = Inr key"
proof -
  have "\<exists>parts. keyParts key = Return (Inr parts) \<and> parseJwk parts = Inr key"
  proof (cases key)
    case (ECDSA_PublicKey c X Y)
    with assms have c: "supported_curve c"
      and r: "0 \<le> X" "X < 2 ^ nat (BitSize c)" "0 \<le> Y" "Y < 2 ^ nat (BitSize c)"
      by simp_all
    obtain n where n: "BitSize c sdiv 8 + BitSize c smod 8 = int n"
      and f: "X < 256 ^ n" "Y < 256 ^ n"
      and nm: "Name c = ''P-256'' \<and> c = P256 \<or> Name c = ''P-384'' \<and> c = P384
               \<or> Name c = ''P-521'' \<and> c = P521"
      using c r curve_bytes curve_fits [of X] curve_fits [of Y]
      unfolding supported_curve_def
      by (elim disjE) (fastforce simp: P256_def P384_def P521_def)+
    let ?xb = "replicate (n - length (Bytes X)) 0 @ Bytes X"
    let ?yb = "replicate (n - length (Bytes Y)) 0 @ Bytes Y"
    let ?parts = "[''kty'' \<mapsto> VString ''EC'', ''crv'' \<mapsto> VString (Name c),
          ''x'' \<mapsto> VString (EncodeToString ?xb), ''y'' \<mapsto> VString (EncodeToString ?yb)]"
    have k: "keyParts key = Return (Inr ?parts)"
      unfolding ECDSA_PublicKey by (rule keyParts_EC [OF n r(1) f(1) r(3) f(2)])
    have v: "SetBytes ?xb = X" "SetBytes ?yb = Y"
      using FillBytes_fits(3) [OF r(1) f(1)] FillBytes_fits(3) [OF r(3) f(2)] by simp_all
    have "parseJwk ?parts = Inr key"
      using nm
      by (auto simp: parseJwk_def index_def as_string_VString decode_EncodeToString v
            ECDSA_PublicKey)
    with k show ?thesis by blast
  next
    case (RSA_PublicKey N E)
    with assms have r: "0 \<le> N" "0 \<le> sint E" by simp_all
    let ?parts = "[''kty'' \<mapsto> VString ''RSA'', ''e'' \<mapsto> VString (EncodeToString (Bytes (sint E))),
                   ''n'' \<mapsto> VString (EncodeToString (Bytes N))]"
    have k: "keyParts key = Return (Inr ?parts)"
      by (simp add: keyParts_def RSA_PublicKey)
    have "parseJwk ?parts = Inr key"
      using r
      by (simp add: parseJwk_def index_def as_string_VString decode_EncodeToString
            SetBytes_Bytes Uint64_sint RSA_PublicKey)
    with k show ?thesis by blast
  next
    case (Ed25519_PublicKey pk)
    let ?parts = "[''kty'' \<mapsto> VString ''OKP'', ''crv'' \<mapsto> VString ''Ed25519'',
                   ''x'' \<mapsto> VString (EncodeToString pk)]"
    have k: "keyParts key = Return (Inr ?parts)"
      by (simp add: keyParts_def Ed25519_PublicKey)
    have "parseJwk ?parts = Inr key"
      by (simp add: parseJwk_def index_def as_string_VString decode_EncodeToString
            Ed25519_PublicKey)
    with k show ?thesis by blast
  next
    case OtherKey
    with assms show ?thesis by simp
  qed

  then show ?thesis
    using getKeyStringRepresentation_parts [of key _ ext] by blast
qed

text \<open>
  Claim C5 at an EC key with short coordinates, an RSA key with exponent 65537 and a
  one-byte Ed25519 key.
\<close>

theorem decode_encode_key_witness:
  "supported_key (ECDSA_PublicKey P256 1 2)
   \<and> supported_key (RSA_PublicKey 2 65537)
   \<and> supported_key (Ed25519_PublicKey [1])
   \<and> (\<exists>parts. keyParts (ECDSA_PublicKey P256 1 2) = Return (Inr parts)
         \<and> parseJwk parts = Inr (ECDSA_PublicKey P256 1 2))
   \<and> (\<exists>parts. keyParts (RSA_PublicKey 2 65537) = Return (Inr parts)
         \<and> parseJwk parts = Inr (RSA_PublicKey 2 65537))
   \<and> (\<exists>parts. keyParts (Ed25519_PublicKey [1]) = Return (Inr parts)
         \<and> parseJwk parts = Inr (Ed25519_PublicKey [1]))"
proof -
  have h: "supported_key (ECDSA_PublicKey P256 1 2)" "supported_key (RSA_PublicKey 2 65537)"
    "supported_key (Ed25519_PublicKey [1])"
    by (simp_all add: supported_curve_def P256_def)
  show ?thesis
    using h decode_encode_key [OF h(1)] decode_encode_key [OF h(2)] decode_encode_key [OF h(3)]
    by blast
qed

text \<open>
  Claim C4. For every EC public key on P-256, P-384 or P-521, the \<open>x\<close> and \<open>y\<close> members
  of the canonical form are the encodings of byte strings of exactly
  \<open>ceil(BitSize / 8)\<close> bytes (32, 48 and 66), which read as big-endian integers are the
  coordinates, and which are the minimal encoding with zero bytes in front.
\<close>

theorem ec_coordinates_fixed_width:
  assumes "supported_key (ECDSA_PublicKey c X Y)"
  shows "\<exists>n xb yb.
           keyParts (ECDSA_PublicKey c X Y) =
             Return (Inr [''kty'' \<mapsto> VString ''EC'', ''crv'' \<mapsto> VString (Name c),
                          ''x'' \<mapsto> VString (EncodeToString xb),
                          ''y'' \<mapsto> VString (EncodeToString yb)])
           \<and> int n = (BitSize c + 7) div 8
           \<and> (c = P256 \<longrightarrow> n = 32) \<and> (c = P384 \<longrightarrow> n = 48) \<and> (c = P521 \<longrightarrow> n = 66)
           \<and> length xb = n \<and> length yb = n
           \<and> SetBytes xb = X \<and> SetBytes yb = Y
           \<and> xb = replicate (n - length (Bytes X)) 0 @ Bytes X
           \<and> yb = replicate (n - length (Bytes Y)) 0 @ Bytes Y"
proof -
  from assms have c: "supported_curve c"
    and r: "0 \<le> X" "X < 2 ^ nat (BitSize c)" "0 \<le> Y" "Y < 2 ^ nat (BitSize c)"
    by simp_all
  obtain n where n: "BitSize c sdiv 8 + BitSize c smod 8 = int n"
    and f: "X < 256 ^ n" "Y < 256 ^ n"
    and w: "int n = (BitSize c + 7) div 8"
      "c = P256 \<longrightarrow> n = 32" "c = P384 \<longrightarrow> n = 48" "c = P521 \<longrightarrow> n = 66"
    using c r curve_bytes curve_fits [of X] curve_fits [of Y]
    unfolding supported_curve_def
    by (elim disjE) (fastforce simp: P256_def P384_def P521_def)+
  let ?xb = "replicate (n - length (Bytes X)) 0 @ Bytes X"
  let ?yb = "replicate (n - length (Bytes Y)) 0 @ Bytes Y"
  note k = keyParts_EC [OF n r(1) f(1) r(3) f(2)]
  note x = FillBytes_fits(2,3) [OF r(1) f(1)]
  note y = FillBytes_fits(2,3) [OF r(3) f(2)]
  from k w x y show ?thesis by blast
qed

text \<open>Claim C4 at the coordinates 1 and 2 on P-256: 31 zero bytes precede the value.\<close>

theorem ec_coordinates_fixed_width_witness:
  "supported_key (ECDSA_PublicKey P256 1 2)
   \<and> keyParts (ECDSA_PublicKey P256 1 2) =
       Return (Inr [''kty'' \<mapsto> VString ''EC'', ''crv'' \<mapsto> VString ''P-256'',
                    ''x'' \<mapsto> VString (EncodeToString (replicate 31 0 @ [1])),
                    ''y'' \<mapsto> VString (EncodeToString (replicate 31 0 @ [2]))])
   \<and> length (replicate 31 0 @ [1 :: byte]) = 32"
proof -
  have h: "supported_key (ECDSA_PublicKey P256 1 2)"
    by (simp add: supported_curve_def P256_def)
  have n: "Name P256 = ''P-256''" by (simp add: P256_def)
  from ec_coordinates_fixed_width [OF h] h show ?thesis
    by (auto simp: Bytes_small n)
qed

section \<open>The stages of \<open>Parse\<close>\<close>

subsection \<open>The errors of the key functions\<close>

lemma decode_quanta_error: "decode_quanta s = Inl e \<Longrightarrow> e = CorruptInputError"
  by (induction s arbitrary: e rule: decode_quanta.induct)
     (auto simp: Let_def split: option.splits sum.splits)

lemma base64_error: "base64urlTrailingPadding s = Inl e \<Longrightarrow> e = CorruptInputError"
  unfolding base64urlTrailingPadding_def DecodeString_def by (rule decode_quanta_error)

lemma parseJwk_error: "parseJwk jwk = Inl e \<Longrightarrow> key_error e"
  by (auto simp: parseJwk_def key_error_def split: option.splits sum.splits if_splits
        dest: base64_error)

lemma keyParts_error: "keyParts k = Return (Inl e) \<Longrightarrow> key_error e"
  by (auto simp: keyParts_def key_error_def Let_def split: key.splits outcome.splits if_splits)

lemma getKeyStringRepresentation_error:
  "getKeyStringRepresentation ext k = Return (Inl e) \<Longrightarrow> key_error e"
  by (auto simp: getKeyStringRepresentation_def split: outcome.splits sum.splits
        dest: keyParts_error) (simp add: key_error_def)

lemma getThumbprintableJwkJSONbytes_error:
  "getThumbprintableJwkJSONbytes ext jwk = Return (Inl e) \<Longrightarrow> key_error e"
  by (auto simp: getThumbprintableJwkJSONbytes_def split: outcome.splits sum.splits
        dest: parseJwk_error getKeyStringRepresentation_error)

subsection \<open>One lemma for each way out of \<open>Parse\<close>\<close>

lemma Parse_jwt_error:
  "jwt_ParseWithClaims ext tokenString keyFunc = Inl err \<Longrightarrow>
   Parse ext now1 now2 st tokenString httpMethod httpURL opts =
     (Return (Inl (Join [ErrInvalidProof, err])), st)"
  by (simp add: Parse_def)

lemma Parse_missing_claims:
  "jwt_ParseWithClaims ext tokenString keyFunc = Inr tok \<Longrightarrow> \<not> claims_present (Claims tok) \<Longrightarrow>
   Parse ext now1 now2 st tokenString httpMethod httpURL opts =
     (Return (Inl (Join [ErrInvalidProof, ErrMissingClaims])), st)"
  by (auto simp: Parse_def claims_present_def Let_def)

lemma Parse_typ_error:
  "jwt_ParseWithClaims ext tokenString keyFunc = Inr tok \<Longrightarrow> claims_present (Claims tok) \<Longrightarrow>
   index (Header tok) ''typ'' = VNil \<or> (\<exists>s. index (Header tok) ''typ'' = VString s \<and> s \<noteq> ''dpop+jwt'') \<Longrightarrow>
   Parse ext now1 now2 st tokenString httpMethod httpURL opts =
     (Return (Inl (Join [ErrInvalidProof, ErrUnsupportedJWTType])), st)"
  by (auto simp: Parse_def claims_present_def Let_def is_nil_def assert_string_def)

lemma Parse_typ_panic:
  "jwt_ParseWithClaims ext tokenString keyFunc = Inr tok \<Longrightarrow> claims_present (Claims tok) \<Longrightarrow>
   \<not> is_nil (index (Header tok) ''typ'') \<Longrightarrow> as_string (index (Header tok) ''typ'') = None \<Longrightarrow>
   Parse ext now1 now2 st tokenString httpMethod httpURL opts = (Panic, st)"
  by (auto simp: Parse_def claims_present_def Let_def is_nil_def assert_string_def as_string_def
        split: iface.splits)

text \<open>Past the header check the caller's pointer is dereferenced and written through.\<close>

lemma Parse_nil_URL:
  "jwt_ParseWithClaims ext tokenString keyFunc = Inr tok \<Longrightarrow> claims_present (Claims tok) \<Longrightarrow>
   typ_ok tok \<Longrightarrow>
   Parse ext now1 now2 st tokenString httpMethod None opts = (Panic, st)"
  by (auto simp: Parse_def claims_present_def Let_def is_nil_def assert_string_def as_string_def
        typ_ok_def split: iface.splits)

lemma Parse_target_error:
  "jwt_ParseWithClaims ext tokenString keyFunc = Inr tok \<Longrightarrow> claims_present (Claims tok) \<Longrightarrow>
   typ_ok tok \<Longrightarrow> \<not> target_ok ext httpMethod (st p) (Claims tok) \<Longrightarrow>
   Parse ext now1 now2 st tokenString httpMethod (Some p) opts =
     (Return (Inl (Join [ErrInvalidProof, ErrIncorrectHTTPTarget])), st(p := strip_query (st p)))"
  by (auto simp: Parse_def claims_present_def Let_def is_nil_def assert_string_def as_string_def
        typ_ok_def target_ok_def strip_query_def split: iface.splits sum.splits)

lemma Parse_nonce_error:
  "jwt_ParseWithClaims ext tokenString keyFunc = Inr tok \<Longrightarrow> claims_present (Claims tok) \<Longrightarrow>
   typ_ok tok \<Longrightarrow> target_ok ext httpMethod (st p) (Claims tok) \<Longrightarrow>
   \<not> nonce_ok opts (Claims tok) \<Longrightarrow>
   Parse ext now1 now2 st tokenString httpMethod (Some p) opts =
     (Return (Inl ErrIncorrectNonce), st(p := strip_query (st p)))"
  by (auto simp: Parse_def claims_present_def Let_def is_nil_def assert_string_def as_string_def
        typ_ok_def target_ok_def strip_query_def nonce_ok_def split: iface.splits sum.splits)

lemma Parse_iat_error:
  "jwt_ParseWithClaims ext tokenString keyFunc = Inr tok \<Longrightarrow> claims_present (Claims tok) \<Longrightarrow>
   typ_ok tok \<Longrightarrow> target_ok ext httpMethod (st p) (Claims tok) \<Longrightarrow>
   nonce_ok opts (Claims tok) \<Longrightarrow> IssuedAt (Claims tok) = Some iat \<Longrightarrow>
   iat_window opts iat now1 now2 = Some err \<Longrightarrow>
   Parse ext now1 now2 st tokenString httpMethod (Some p) opts =
     (Return (Inl err), st(p := strip_query (st p)))"
  by (auto simp: Parse_def claims_present_def Let_def is_nil_def assert_string_def as_string_def
        typ_ok_def target_ok_def strip_query_def nonce_ok_def split: iface.splits sum.splits)

lemma Parse_past_iat:
  "jwt_ParseWithClaims ext tokenString keyFunc = Inr tok \<Longrightarrow> claims_present (Claims tok) \<Longrightarrow>
   typ_ok tok \<Longrightarrow> target_ok ext httpMethod (st p) (Claims tok) \<Longrightarrow>
   nonce_ok opts (Claims tok) \<Longrightarrow> IssuedAt (Claims tok) = Some iat \<Longrightarrow>
   iat_window opts iat now1 now2 = None \<Longrightarrow>
   Parse ext now1 now2 st tokenString httpMethod (Some p) opts =
     (Parse_key ext tok opts, st(p := strip_query (st p)))"
  by (auto simp: Parse_def claims_present_def Let_def is_nil_def assert_string_def as_string_def
        typ_ok_def target_ok_def strip_query_def nonce_ok_def Parse_key_def
        split: iface.splits sum.splits outcome.splits)

lemma Parse_key_proof:
  "Parse_key ext tok opts = Return (Inr prf) \<longleftrightarrow>
   (\<exists>jkt. thumbprint ext tok = Some jkt \<and> jkt_ok opts jkt
          \<and> prf = \<lparr>Token = tok, HashedPublicKey = jkt\<rparr>)"
  by (auto simp: Parse_key_def thumbprint_def jkt_ok_def Let_def
        split: iface.splits outcome.splits sum.splits)

lemma Parse_key_error:
  assumes "Parse_key ext tok opts = Return (Inl e)"
  shows "e = ErrMissingJWK \<or> e = Join [ErrInvalidProof, ErrIncorrectJKT]
         \<or> (\<exists>k. key_error k \<and> e = Join [ErrInvalidProof, k])"
  using assms
  by (auto simp: Parse_key_def Let_def split: iface.splits outcome.splits sum.splits if_splits
        dest: getThumbprintableJwkJSONbytes_error)

lemma key_error_distinct:
  "\<not> key_error ErrIncorrectHTTPTarget" "\<not> key_error ErrExpired" "\<not> key_error ErrFuture"
  by (simp_all add: key_error_def)

subsection \<open>The comparisons of the time window\<close>

lemma sint_minus_64:
  fixes d :: "64 word"
  assumes "sint d \<noteq> - (2 ^ 63)"
  shows "sint (- d) = - sint d"
proof -
  have "- (2 ^ 63) \<le> sint d" "sint d < 2 ^ 63"
    using sint_ge [of d] sint_lt [of d] by simp_all
  with assms have "- (2 ^ 63) \<le> - sint d" "- sint d < 2 ^ 63" by simp_all
  then have "signed_take_bit 63 (- sint d) = - sint d"
    by (simp add: signed_take_bit_int_eq_self)
  then show ?thesis by (simp add: sint_word_minus)
qed

lemma sint_defaults:
  "sint DEFAULT_ALLOWED_PROOF_AGE = 300000000000"
  "sint (- DEFAULT_ALLOWED_PROOF_AGE) = - 300000000000"
  "sint DEFAULT_ALLOWED_TIME_WINDOW = 0"
  by (simp_all add: DEFAULT_ALLOWED_PROOF_AGE_def DEFAULT_ALLOWED_TIME_WINDOW_def)

lemma iat_window_eq:
  "iat_window opts iat now1 now2 =
     (if NonceHasTimestamp opts then None
      else if iat < now1 + sint (- allowedProofAge opts)
           then Some (Join [ErrInvalidProof, ErrExpired])
      else if now2 + sint (allowedTimeWindow opts) < iat
           then Some (Join [ErrInvalidProof, ErrFuture])
      else None)"
  by (simp add: iat_window_def allowedProofAge_def allowedTimeWindow_def Let_def Add_def
        Before_def After_def)

subsection \<open>When \<open>Parse\<close> returns a proof\<close>

lemma typ_cases:
  "typ_ok tok
   \<or> (index (Header tok) ''typ'' = VNil
        \<or> (\<exists>s. index (Header tok) ''typ'' = VString s \<and> s \<noteq> ''dpop+jwt''))
   \<or> (\<not> is_nil (index (Header tok) ''typ'') \<and> as_string (index (Header tok) ''typ'') = None)"
  by (cases "index (Header tok) ''typ''") (auto simp: typ_ok_def is_nil_def as_string_def)

lemma claims_present_iat: "claims_present c \<Longrightarrow> \<exists>iat. IssuedAt c = Some iat"
  by (auto simp: claims_present_def)

lemma iat_window_errors:
  "iat_window opts iat now1 now2 = Some e \<Longrightarrow>
   e = Join [ErrInvalidProof, ErrExpired] \<or> e = Join [ErrInvalidProof, ErrFuture]"
  by (auto simp: iat_window_eq split: if_splits)

text \<open>\<open>Parse\<close> returns a proof exactly when every check passes.\<close>

lemma Parse_success_iff:
  "fst (Parse ext now1 now2 st tokenString httpMethod httpURL opts) = Return (Inr prf) \<longleftrightarrow>
   (\<exists>tok p iat jkt.
      jwt_ParseWithClaims ext tokenString keyFunc = Inr tok
      \<and> claims_present (Claims tok) \<and> typ_ok tok \<and> httpURL = Some p
      \<and> target_ok ext httpMethod (st p) (Claims tok) \<and> nonce_ok opts (Claims tok)
      \<and> IssuedAt (Claims tok) = Some iat \<and> iat_window opts iat now1 now2 = None
      \<and> thumbprint ext tok = Some jkt \<and> jkt_ok opts jkt
      \<and> prf = \<lparr>Token = tok, HashedPublicKey = jkt\<rparr>)"
  (is "?L \<longleftrightarrow> ?R")
proof
  assume ?R
  then obtain tok p iat jkt where h:
    "jwt_ParseWithClaims ext tokenString keyFunc = Inr tok"
    "claims_present (Claims tok)" "typ_ok tok" "httpURL = Some p"
    "target_ok ext httpMethod (st p) (Claims tok)" "nonce_ok opts (Claims tok)"
    "IssuedAt (Claims tok) = Some iat" "iat_window opts iat now1 now2 = None"
    "thumbprint ext tok = Some jkt" "jkt_ok opts jkt"
    "prf = \<lparr>Token = tok, HashedPublicKey = jkt\<rparr>"
    by blast
  have "Parse_key ext tok opts = Return (Inr prf)"
    using h(9-11) by (simp add: Parse_key_proof)
  then show ?L
    using Parse_past_iat [where st = st and p = p, OF h(1,2,3,5,6,7,8)] h(4) by simp
next
  assume L: ?L
  show ?R
  proof (cases "jwt_ParseWithClaims ext tokenString keyFunc")
    case (Inl err)
    from Parse_jwt_error [OF this] L show ?thesis by simp
  next
    case (Inr tok)
    have c: "claims_present (Claims tok)"
      using Parse_missing_claims [OF Inr] L by fastforce
    have t: "typ_ok tok"
      using typ_cases [of tok] Parse_typ_error [OF Inr c] Parse_typ_panic [OF Inr c] L
      by fastforce
    obtain p where p: "httpURL = Some p"
      using Parse_nil_URL [OF Inr c t] L by (cases httpURL) fastforce+
    have g: "target_ok ext httpMethod (st p) (Claims tok)"
      using Parse_target_error [where st = st and p = p, OF Inr c t] L p by fastforce
    have n: "nonce_ok opts (Claims tok)"
      using Parse_nonce_error [where st = st and p = p, OF Inr c t g] L p by fastforce
    obtain iat where i: "IssuedAt (Claims tok) = Some iat"
      using claims_present_iat [OF c] by blast
    have w: "iat_window opts iat now1 now2 = None"
      using Parse_iat_error [where st = st and p = p, OF Inr c t g n i] L p
      by (cases "iat_window opts iat now1 now2") fastforce+
    have "Parse_key ext tok opts = Return (Inr prf)"
      using Parse_past_iat [where st = st and p = p, OF Inr c t g n i w] L p by simp
    then obtain jkt where "thumbprint ext tok = Some jkt" "jkt_ok opts jkt"
      "prf = \<lparr>Token = tok, HashedPublicKey = jkt\<rparr>"
      by (auto simp: Parse_key_proof)
    with Inr c t p g n i w show ?thesis by blast
  qed
qed

lemma Parse_key_not_window:
  "Parse_key ext tok opts \<noteq> Return (Inl (Join [ErrInvalidProof, ErrExpired]))"
  "Parse_key ext tok opts \<noteq> Return (Inl (Join [ErrInvalidProof, ErrFuture]))"
  "Parse_key ext tok opts \<noteq> Return (Inl (Join [ErrInvalidProof, ErrIncorrectHTTPTarget]))"
  using Parse_key_error [of ext tok opts] key_error_distinct by auto

subsection \<open>The sample inputs\<close>

lemma upt64: "[0..<64] = [0,1,2,3,4,5,6,7,8,9,10,11,12,13,14,15,16,17,18,19,20,21,22,23,24,25,26,27,28,29,30,31,32,33,34,35,36,37,38,39,40,41,42,43,44,45,46,47,48,49,50,51,52,53,54,55,56,57,58,59,60,61,62,63::nat]"
  by (simp add: upt_rec)

lemma example_x_decodes:
  "\<exists>pk. base64urlTrailingPadding ''11qYAYKxCrfVS_7TyWQHOg7hcvPapiMlrwIaaPcHURo'' = Inr pk"
  by (simp add: base64urlTrailingPadding_def TrimRight_def DecodeString_def decodeMap_def
        encodeURL_def upt64)

lemma example_x_padded:
  "base64urlTrailingPadding ''11qYAYKxCrfVS_7TyWQHOg7hcvPapiMlrwIaaPcHURo=''
     = base64urlTrailingPadding ''11qYAYKxCrfVS_7TyWQHOg7hcvPapiMlrwIaaPcHURo''"
  by (simp add: base64urlTrailingPadding_def TrimRight_def)

lemma example_key:
  "\<exists>pk. parseJwk example_jwk = Inr (Ed25519_PublicKey pk)
        \<and> parseJwk example_jwk_bare = Inr (Ed25519_PublicKey pk)"
  using example_x_decodes
  by (auto simp: parseJwk_def example_jwk_def example_jwk_bare_def index_def as_string_def
        example_x_padded)

lemma example_keyFunc:
  assumes "index (Header t) ''jwk'' = VMap example_jwk
           \<or> index (Header t) ''jwk'' = VMap example_jwk_bare"
  shows "\<exists>k. keyFunc t = Inr k"
  using assms example_key by (auto simp: keyFunc_def)

lemma example_headers:
  "index (Header example_token) ''jwk'' = VMap example_jwk"
  "index (Header example_token) ''typ'' = VString ''dpop+jwt''"
  by (simp_all add: example_token_def index_def)

lemma stub_jwt_examples:
  "jwt_ParseWithClaims (stub_ext example_tokens) ''proof'' keyFunc = Inr example_token"
  "jwt_ParseWithClaims (stub_ext example_tokens) ''proof-htu-query'' keyFunc =
     Inr (example_token\<lparr>Claims := example_claims\<lparr>URL := ''https://example.com/token?foo=bar''\<rparr>\<rparr>)"
  "jwt_ParseWithClaims (stub_ext example_tokens) ''proof-typ-number'' keyFunc =
     Inr (example_token\<lparr>Header := (Header example_token)(''typ'' \<mapsto> VFloat64 0x405EC00000000000)\<rparr>)"
  "jwt_ParseWithClaims (stub_ext example_tokens) ''proof-bare-jwk'' keyFunc =
     Inr (example_token\<lparr>Header := (Header example_token)
           (''jwk'' \<mapsto> VMap example_jwk_bare)\<rparr>)"
  "jwt_ParseWithClaims (stub_ext example_tokens) ''proof-far-future'' keyFunc =
     Inr (example_token\<lparr>Claims := example_claims\<lparr>IssuedAt := Some 10700000000000000000\<rparr>\<rparr>)"
proof -
  have k: "\<exists>k. keyFunc t = Inr k"
    if "index (Header t) ''jwk'' = VMap example_jwk
        \<or> index (Header t) ''jwk'' = VMap example_jwk_bare" for t
    using that by (rule example_keyFunc)
  have s: "stub_jwt example_tokens n keyFunc = Inr t"
    if "example_tokens n = Some t" "\<exists>k. keyFunc t = Inr k" for n t
    using that by (auto simp: stub_jwt_def)
  show "jwt_ParseWithClaims (stub_ext example_tokens) ''proof'' keyFunc = Inr example_token"
    unfolding stub_ext_def
    by simp (rule s, simp add: example_tokens_def, rule k, simp add: example_headers)
  show "jwt_ParseWithClaims (stub_ext example_tokens) ''proof-htu-query'' keyFunc =
     Inr (example_token\<lparr>Claims := example_claims\<lparr>URL := ''https://example.com/token?foo=bar''\<rparr>\<rparr>)"
    unfolding stub_ext_def
    by simp (rule s, simp add: example_tokens_def, rule k, simp add: example_headers)
  show "jwt_ParseWithClaims (stub_ext example_tokens) ''proof-typ-number'' keyFunc =
     Inr (example_token\<lparr>Header := (Header example_token)(''typ'' \<mapsto> VFloat64 0x405EC00000000000)\<rparr>)"
    unfolding stub_ext_def
    by simp (rule s, simp add: example_tokens_def, rule k,
        simp add: example_token_def index_def)
  show "jwt_ParseWithClaims (stub_ext example_tokens) ''proof-bare-jwk'' keyFunc =
     Inr (example_token\<lparr>Header := (Header example_token)
           (''jwk'' \<mapsto> VMap example_jwk_bare)\<rparr>)"
    unfolding stub_ext_def
    by simp (rule s, simp add: example_tokens_def, rule k, simp add: index_def)
  show "jwt_ParseWithClaims (stub_ext example_tokens) ''proof-far-future'' keyFunc =
     Inr (example_token\<lparr>Claims := example_claims\<lparr>IssuedAt := Some 10700000000000000000\<rparr>\<rparr>)"
    unfolding stub_ext_def
    by simp (rule s, simp add: example_tokens_def, rule k, simp add: example_headers)
qed

lemma example_claims_present:
  "claims_present example_claims"
  "claims_present (example_claims\<lparr>URL := ''https://example.com/token?foo=bar''\<rparr>)"
  "claims_present (example_claims\<lparr>IssuedAt := Some 10700000000000000000\<rparr>)"
  by (simp_all add: claims_present_def example_claims_def)

lemma example_target_ok:
  "target_ok (stub_ext T) ''POST'' (example_store 0) example_claims"
  "target_ok (stub_ext T) ''POST'' (example_store 0)
     (example_claims\<lparr>URL := ''https://example.com/token?foo=bar''\<rparr>)"
  "target_ok (stub_ext T) ''POST'' (example_store 0)
     (example_claims\<lparr>IssuedAt := Some 10700000000000000000\<rparr>)"
  by (simp_all add: target_ok_def stub_ext_def stub_url_Parse_def stub_url_String_def
        example_claims_def example_store_def example_url_def strip_query_def)

lemma example_thumbprint:
  assumes "index (Header t) ''jwk'' = VMap example_jwk
           \<or> index (Header t) ''jwk'' = VMap example_jwk_bare"
  shows "\<exists>jkt. thumbprint (stub_ext T) t = Some jkt"
  using assms example_key
  by (auto simp: thumbprint_def getThumbprintableJwkJSONbytes_def
        getKeyStringRepresentation_def keyParts_def stub_ext_def stub_json_Marshal_def)

lemma example_token_facts:
  "claims_present (Claims example_token)" "typ_ok example_token"
  "nonce_ok no_options c" "IssuedAt (Claims example_token) = Some 1700000000000000000"
  "Claims example_token = example_claims" "IssuedAt example_claims = Some 1700000000000000000"
  by (simp_all add: example_token_def claims_present_def typ_ok_def index_def as_string_def
        nonce_ok_def no_options_def example_claims_def)

lemma far_future_facts:
  "claims_present (Claims (example_token\<lparr>Claims := example_claims\<lparr>IssuedAt := Some 10700000000000000000\<rparr>\<rparr>))"
  "typ_ok (example_token\<lparr>Claims := example_claims\<lparr>IssuedAt := Some 10700000000000000000\<rparr>\<rparr>)"
  "IssuedAt (Claims (example_token\<lparr>Claims := example_claims\<lparr>IssuedAt := Some 10700000000000000000\<rparr>\<rparr>))
     = Some 10700000000000000000"
  by (simp_all add: example_token_def claims_present_def example_claims_def typ_ok_def
        index_def as_string_def)

lemma no_options_window:
  "\<not> NonceHasTimestamp no_options" "sint (allowedProofAge no_options) = 300000000000"
  "sint (allowedTimeWindow no_options) = 0"
  "NonceHasTimestamp (no_options\<lparr>NonceHasTimestamp := True\<rparr>)"
  "nonce_ok (no_options\<lparr>NonceHasTimestamp := True\<rparr>) c"
  by (simp_all add: no_options_def allowedProofAge_def allowedTimeWindow_def sint_defaults
        nonce_ok_def)

section \<open>The time window\<close>

text \<open>
  Claim C1, as amended. For every call of \<open>Parse\<close> that passes the checks before the time
  window: when \<open>NonceHasTimestamp\<close> is false and \<open>allowedProofAge\<close> (default 5 minutes) is
  not the least duration, whose negation overflows, an \<open>iat\<close> exactly at
  \<open>now - allowedProofAge\<close> is not rejected with \<open>Expired\<close>, and any strictly older \<open>iat\<close>
  is; an \<open>iat\<close> strictly newer than \<open>now + TimeWindow\<close> (default 0) that is not older than
  \<open>now - allowedProofAge\<close> is rejected with \<open>Future\<close>; an \<open>iat\<close> between the two bounds
  passes on to the key check. When \<open>NonceHasTimestamp\<close> is true, both comparisons are
  skipped and neither \<open>Expired\<close> nor \<open>Future\<close> is returned. Here \<open>now\<close> is the clock
  reading of the comparison concerned: \<open>now1\<close> for the age, \<open>now2\<close> for the future.
\<close>

theorem iat_window_boundaries:
  assumes "jwt_ParseWithClaims ext tokenString keyFunc = Inr tok"
    and "claims_present (Claims tok)"
    and "typ_ok tok"
    and "target_ok ext httpMethod (st p) (Claims tok)"
    and "nonce_ok opts (Claims tok)"
    and "IssuedAt (Claims tok) = Some iat"
  shows "(\<not> NonceHasTimestamp opts \<and> sint (allowedProofAge opts) \<noteq> - (2 ^ 63)
            \<and> iat = now1 - sint (allowedProofAge opts)
          \<longrightarrow> fst (Parse ext now1 now2 st tokenString httpMethod (Some p) opts)
                \<noteq> Return (Inl (Join [ErrInvalidProof, ErrExpired])))
       \<and> (\<not> NonceHasTimestamp opts \<and> sint (allowedProofAge opts) \<noteq> - (2 ^ 63)
            \<and> iat < now1 - sint (allowedProofAge opts)
          \<longrightarrow> fst (Parse ext now1 now2 st tokenString httpMethod (Some p) opts)
                = Return (Inl (Join [ErrInvalidProof, ErrExpired])))
       \<and> (\<not> NonceHasTimestamp opts \<and> sint (allowedProofAge opts) \<noteq> - (2 ^ 63)
            \<and> now1 - sint (allowedProofAge opts) \<le> iat
            \<and> now2 + sint (allowedTimeWindow opts) < iat
          \<longrightarrow> fst (Parse ext now1 now2 st tokenString httpMethod (Some p) opts)
                = Return (Inl (Join [ErrInvalidProof, ErrFuture])))
       \<and> (\<not> NonceHasTimestamp opts \<and> sint (allowedProofAge opts) \<noteq> - (2 ^ 63)
            \<and> now1 - sint (allowedProofAge opts) \<le> iat
            \<and> iat \<le> now2 + sint (allowedTimeWindow opts)
          \<longrightarrow> Parse ext now1 now2 st tokenString httpMethod (Some p) opts
                = (Parse_key ext tok opts, st(p := strip_query (st p))))
       \<and> (NonceHasTimestamp opts
          \<longrightarrow> Parse ext now1 now2 st tokenString httpMethod (Some p) opts
                = (Parse_key ext tok opts, st(p := strip_query (st p)))
              \<and> fst (Parse ext now1 now2 st tokenString httpMethod (Some p) opts)
                \<noteq> Return (Inl (Join [ErrInvalidProof, ErrExpired]))
              \<and> fst (Parse ext now1 now2 st tokenString httpMethod (Some p) opts)
                \<noteq> Return (Inl (Join [ErrInvalidProof, ErrFuture])))"
proof -
  note err = Parse_iat_error [where st = st and p = p, OF assms]
  note ok = Parse_past_iat [where st = st and p = p, OF assms]
  have m: "sint (- allowedProofAge opts) = - sint (allowedProofAge opts)"
    if "sint (allowedProofAge opts) \<noteq> - (2 ^ 63)"
    using that by (rule sint_minus_64)
  have expired: "fst (Parse ext now1 now2 st tokenString httpMethod (Some p) opts)
                = Return (Inl (Join [ErrInvalidProof, ErrExpired]))"
    if "\<not> NonceHasTimestamp opts" "sint (allowedProofAge opts) \<noteq> - (2 ^ 63)"
       "iat < now1 - sint (allowedProofAge opts)"
    using that err [of now1 now2 "Join [ErrInvalidProof, ErrExpired]"]
    by (simp add: iat_window_eq m)
  have future: "fst (Parse ext now1 now2 st tokenString httpMethod (Some p) opts)
                = Return (Inl (Join [ErrInvalidProof, ErrFuture]))"
    if "\<not> NonceHasTimestamp opts" "sint (allowedProofAge opts) \<noteq> - (2 ^ 63)"
       "now1 - sint (allowedProofAge opts) \<le> iat" "now2 + sint (allowedTimeWindow opts) < iat"
    using that err [of now1 now2 "Join [ErrInvalidProof, ErrFuture]"]
    by (simp add: iat_window_eq m)
  have accepted: "Parse ext now1 now2 st tokenString httpMethod (Some p) opts
                = (Parse_key ext tok opts, st(p := strip_query (st p)))"
    if "\<not> NonceHasTimestamp opts" "sint (allowedProofAge opts) \<noteq> - (2 ^ 63)"
       "now1 - sint (allowedProofAge opts) \<le> iat" "iat \<le> now2 + sint (allowedTimeWindow opts)"
    using that ok [of now1 now2] by (simp add: iat_window_eq m)
  have skipped: "Parse ext now1 now2 st tokenString httpMethod (Some p) opts
                = (Parse_key ext tok opts, st(p := strip_query (st p)))"
    if "NonceHasTimestamp opts"
    using that ok [of now1 now2] by (simp add: iat_window_eq)
  have edge: "fst (Parse ext now1 now2 st tokenString httpMethod (Some p) opts)
                \<noteq> Return (Inl (Join [ErrInvalidProof, ErrExpired]))"
    if "\<not> NonceHasTimestamp opts" "sint (allowedProofAge opts) \<noteq> - (2 ^ 63)"
       "iat = now1 - sint (allowedProofAge opts)"
  proof (cases "now2 + sint (allowedTimeWindow opts) < iat")
    case True
    with that future show ?thesis by simp
  next
    case False
    with that accepted show ?thesis by (simp add: Parse_key_not_window)
  qed
  show ?thesis
    using expired future accepted skipped edge
    by (simp add: Parse_key_not_window)
qed

text \<open>
  Claim C1 as stated fails. With \<open>AllowedProofAge\<close> of minus one hour, an \<open>iat\<close> one minute
  after \<open>now\<close> is strictly newer than \<open>now + TimeWindow\<close> and is rejected with \<open>Expired\<close>,
  not \<open>Future\<close>: the age is checked first. With \<open>AllowedProofAge\<close> the least duration,
  \<open>- 2 ^ 63\<close> nanoseconds, an \<open>iat\<close> nine billion seconds after \<open>now\<close> is strictly older
  than \<open>now - allowedProofAge\<close> (which is \<open>now + 2 ^ 63\<close> nanoseconds) and is rejected with
  \<open>Future\<close>, not \<open>Expired\<close>.
\<close>

theorem iat_window_counterexample:
  "fst (Parse (stub_ext example_tokens) 1699999940000000000 1699999940000000000 example_store
          ''proof'' ''POST'' (Some 0) (no_options\<lparr>AllowedProofAge := Some (- 3600000000000)\<rparr>))
     = Return (Inl (Join [ErrInvalidProof, ErrExpired]))
   \<and> fst (Parse (stub_ext example_tokens) 1700000000000000000 1700000000000000000 example_store
          ''proof-far-future'' ''POST'' (Some 0)
          (no_options\<lparr>AllowedProofAge := Some (- 9223372036854775808)\<rparr>))
     = Return (Inl (Join [ErrInvalidProof, ErrFuture]))"
proof -
  let ?o1 = "no_options\<lparr>AllowedProofAge := Some (- 3600000000000)\<rparr>"
  let ?o2 = "no_options\<lparr>AllowedProofAge := Some (- 9223372036854775808)\<rparr>"
  have n: "nonce_ok ?o1 c" "nonce_ok ?o2 c" for c
    by (simp_all add: nonce_ok_def no_options_def)
  have w1: "iat_window ?o1 1700000000000000000 1699999940000000000 1699999940000000000
              = Some (Join [ErrInvalidProof, ErrExpired])"
    by (simp add: iat_window_eq allowedProofAge_def no_options_def)
  have w2: "iat_window ?o2 10700000000000000000 1700000000000000000 1700000000000000000
              = Some (Join [ErrInvalidProof, ErrFuture])"
    by (simp add: iat_window_eq allowedProofAge_def allowedTimeWindow_def no_options_def
          sint_defaults)
  have 1: "Parse (stub_ext example_tokens) 1699999940000000000 1699999940000000000 example_store
          ''proof'' ''POST'' (Some 0) ?o1
     = (Return (Inl (Join [ErrInvalidProof, ErrExpired])),
        example_store(0 := strip_query (example_store 0)))"
    by (rule Parse_iat_error [where iat = 1700000000000000000,
            OF stub_jwt_examples(1) example_token_facts(1,2)])
       (simp_all add: example_token_facts example_target_ok n w1)
  have 2: "Parse (stub_ext example_tokens) 1700000000000000000 1700000000000000000 example_store
          ''proof-far-future'' ''POST'' (Some 0) ?o2
     = (Return (Inl (Join [ErrInvalidProof, ErrFuture])),
        example_store(0 := strip_query (example_store 0)))"
    by (rule Parse_iat_error [where iat = 10700000000000000000,
            OF stub_jwt_examples(5) far_future_facts(1,2)])
       (simp_all add: example_target_ok n w2 del: Token.simps)
  from 1 2 show ?thesis by simp
qed

text \<open>
  Claim C1, as amended, at the sample proof with the default durations: \<open>iat\<close> exactly five
  minutes before \<open>now\<close> passes, one nanosecond more is \<open>Expired\<close>, \<open>iat\<close> one nanosecond
  after \<open>now\<close> is \<open>Future\<close>, and with \<open>NonceHasTimestamp\<close> no clock reading gives
  \<open>Expired\<close>.
\<close>

theorem iat_window_boundaries_witness:
  "jwt_ParseWithClaims (stub_ext example_tokens) ''proof'' keyFunc = Inr example_token
   \<and> claims_present (Claims example_token) \<and> typ_ok example_token
   \<and> target_ok (stub_ext example_tokens) ''POST'' (example_store 0) (Claims example_token)
   \<and> nonce_ok no_options (Claims example_token)
   \<and> IssuedAt (Claims example_token) = Some 1700000000000000000
   \<and> Parse (stub_ext example_tokens) 1700000300000000000 1700000300000000000 example_store
        ''proof'' ''POST'' (Some 0) no_options
      = (Parse_key (stub_ext example_tokens) example_token no_options,
         example_store(0 := strip_query (example_store 0)))
   \<and> fst (Parse (stub_ext example_tokens) 1700000300000000001 1700000300000000001 example_store
        ''proof'' ''POST'' (Some 0) no_options)
      = Return (Inl (Join [ErrInvalidProof, ErrExpired]))
   \<and> fst (Parse (stub_ext example_tokens) 1699999999999999999 1699999999999999999 example_store
        ''proof'' ''POST'' (Some 0) no_options)
      = Return (Inl (Join [ErrInvalidProof, ErrFuture]))
   \<and> fst (Parse (stub_ext example_tokens) 1800000000000000000 1600000000000000000 example_store
        ''proof'' ''POST'' (Some 0) (no_options\<lparr>NonceHasTimestamp := True\<rparr>))
      \<noteq> Return (Inl (Join [ErrInvalidProof, ErrExpired]))"
proof -
  have t: "target_ok (stub_ext example_tokens) ''POST'' (example_store 0) (Claims example_token)"
    by (simp add: example_token_facts(5) example_target_ok)
  note h = stub_jwt_examples(1) example_token_facts(1,2) t
  note B = iat_window_boundaries [where st = example_store and p = 0, OF h _ example_token_facts(4)]
  note B1 = B [where opts = no_options, OF example_token_facts(3)]
  note B2 = B [where opts = "no_options\<lparr>NonceHasTimestamp := True\<rparr>", OF no_options_window(5)]
  have 1: "Parse (stub_ext example_tokens) 1700000300000000000 1700000300000000000 example_store
        ''proof'' ''POST'' (Some 0) no_options
      = (Parse_key (stub_ext example_tokens) example_token no_options,
         example_store(0 := strip_query (example_store 0)))"
    using B1 [of 1700000300000000000 1700000300000000000] by (simp add: no_options_window)
  have 2: "fst (Parse (stub_ext example_tokens) 1700000300000000001 1700000300000000001
        example_store ''proof'' ''POST'' (Some 0) no_options)
      = Return (Inl (Join [ErrInvalidProof, ErrExpired]))"
    using B1 [of 1700000300000000001 1700000300000000001] by (simp add: no_options_window)
  have 3: "fst (Parse (stub_ext example_tokens) 1699999999999999999 1699999999999999999
        example_store ''proof'' ''POST'' (Some 0) no_options)
      = Return (Inl (Join [ErrInvalidProof, ErrFuture]))"
    using B1 [of 1699999999999999999 1699999999999999999] by (simp add: no_options_window)
  have 4: "fst (Parse (stub_ext example_tokens) 1800000000000000000 1600000000000000000
        example_store ''proof'' ''POST'' (Some 0) (no_options\<lparr>NonceHasTimestamp := True\<rparr>))
      \<noteq> Return (Inl (Join [ErrInvalidProof, ErrExpired]))"
    using B2 [of 1800000000000000000 1600000000000000000] no_options_window(4) by blast
  from h example_token_facts(3,4) 1 2 3 4 show ?thesis by blast
qed

section \<open>The HTTP target\<close>

text \<open>
  Claim C2. For every call of \<open>Parse\<close> that reaches the check of the HTTP target, the call
  fails with \<open>IncorrectHTTPTarget\<close> exactly when \<open>htu\<close> does not parse, or the method
  differs from \<open>htm\<close>, or the serialized request URL and the serialized re-parsed \<open>htu\<close>
  differ after the query string and the fragment have been removed from both. So a proof
  whose \<open>htu\<close> carries a query string passes the check when the stripped URLs are equal,
  and when the checks after it pass as well, the result is that of the key check.
\<close>

theorem http_target_check:
  assumes "jwt_ParseWithClaims ext tokenString keyFunc = Inr tok"
    and "claims_present (Claims tok)"
    and "typ_ok tok"
  shows "(fst (Parse ext now1 now2 st tokenString httpMethod (Some p) opts)
            = Return (Inl (Join [ErrInvalidProof, ErrIncorrectHTTPTarget]))
          \<longleftrightarrow> \<not> (\<exists>parsed. url_Parse ext (URL (Claims tok)) = Inr parsed
                  \<and> httpMethod = Method (Claims tok)
                  \<and> url_String ext ((st p)\<lparr>RawQuery := [], Fragment := []\<rparr>)
                      = url_String ext (parsed\<lparr>RawQuery := [], Fragment := []\<rparr>)))
       \<and> ((\<exists>parsed. url_Parse ext (URL (Claims tok)) = Inr parsed
                  \<and> httpMethod = Method (Claims tok)
                  \<and> url_String ext ((st p)\<lparr>RawQuery := [], Fragment := []\<rparr>)
                      = url_String ext (parsed\<lparr>RawQuery := [], Fragment := []\<rparr>))
            \<and> nonce_ok opts (Claims tok)
            \<and> (\<forall>iat. IssuedAt (Claims tok) = Some iat \<longrightarrow> iat_window opts iat now1 now2 = None)
          \<longrightarrow> fst (Parse ext now1 now2 st tokenString httpMethod (Some p) opts)
                = Parse_key ext tok opts)"
proof -
  let ?match = "\<exists>parsed. url_Parse ext (URL (Claims tok)) = Inr parsed
                  \<and> httpMethod = Method (Claims tok)
                  \<and> url_String ext ((st p)\<lparr>RawQuery := [], Fragment := []\<rparr>)
                      = url_String ext (parsed\<lparr>RawQuery := [], Fragment := []\<rparr>)"
  let ?r = "fst (Parse ext now1 now2 st tokenString httpMethod (Some p) opts)"
  let ?e = "Return (Inl (Join [ErrInvalidProof, ErrIncorrectHTTPTarget]))"
  have m: "target_ok ext httpMethod (st p) (Claims tok) \<longleftrightarrow> ?match"
    by (auto simp: target_ok_def strip_query_def split: sum.splits)
  obtain iat where i: "IssuedAt (Claims tok) = Some iat"
    using claims_present_iat [OF assms(2)] by blast
  have bad: "?r = ?e" if "\<not> ?match"
    using Parse_target_error [where st = st and p = p, OF assms] that m by simp
  have good: "?r \<noteq> ?e" if g: "?match"
  proof (cases "nonce_ok opts (Claims tok)")
    case False
    from Parse_nonce_error [where st = st and p = p, OF assms _ False] g m
    show ?thesis by simp
  next
    case True
    note h = assms m [THEN iffD2, OF g] True i
    show ?thesis
    proof (cases "iat_window opts iat now1 now2")
      case None
      from Parse_past_iat [where st = st and p = p, OF h None] show ?thesis
        by (simp add: Parse_key_not_window)
    next
      case (Some e)
      from Parse_iat_error [where st = st and p = p, OF h Some] iat_window_errors [OF Some]
      show ?thesis by auto
    qed
  qed
  have pass: "?r = Parse_key ext tok opts"
    if "?match" "nonce_ok opts (Claims tok)" "iat_window opts iat now1 now2 = None"
    using Parse_past_iat [where st = st and p = p, OF assms m [THEN iffD2, OF that(1)] that(2) i that(3)]
    by simp
  have a: "?r = ?e \<longleftrightarrow> \<not> ?match"
  proof
    assume e: "?r = ?e"
    show "\<not> ?match"
    proof
      assume ?match
      from good [OF this] e show False by simp
    qed
  next
    assume "\<not> ?match"
    then show "?r = ?e" by (rule bad)
  qed
  have b: "?r = Parse_key ext tok opts"
    if "?match \<and> nonce_ok opts (Claims tok)
        \<and> (\<forall>iat. IssuedAt (Claims tok) = Some iat \<longrightarrow> iat_window opts iat now1 now2 = None)"
  proof -
    from that i have "iat_window opts iat now1 now2 = None" by simp
    with that show ?thesis by (intro pass) simp_all
  qed
  from a b show ?thesis by (intro conjI impI)
qed

text \<open>
  Claim C2 at the sample proof whose \<open>htu\<close> is \<open>https://example.com/token?foo=bar\<close>: it is
  accepted for the request \<open>POST https://example.com/token?foo=bar\<close> and rejected with
  \<open>IncorrectHTTPTarget\<close> for the method \<open>GET\<close>.
\<close>

theorem http_target_check_witness:
  "jwt_ParseWithClaims (stub_ext example_tokens) ''proof-htu-query'' keyFunc =
     Inr (example_token\<lparr>Claims := example_claims\<lparr>URL := ''https://example.com/token?foo=bar''\<rparr>\<rparr>)
   \<and> claims_present (Claims (example_token\<lparr>Claims := example_claims\<lparr>URL := ''https://example.com/token?foo=bar''\<rparr>\<rparr>))
   \<and> typ_ok (example_token\<lparr>Claims := example_claims\<lparr>URL := ''https://example.com/token?foo=bar''\<rparr>\<rparr>)
   \<and> RawQuery (example_store 0) = ''foo=bar''
   \<and> (\<exists>jkt. fst (Parse (stub_ext example_tokens) 1700000000000000000 1700000000000000000
                   example_store ''proof-htu-query'' ''POST'' (Some 0) no_options)
        = Return (Inr \<lparr>Token = example_token\<lparr>Claims := example_claims
                                  \<lparr>URL := ''https://example.com/token?foo=bar''\<rparr>\<rparr>,
                        HashedPublicKey = jkt\<rparr>))
   \<and> fst (Parse (stub_ext example_tokens) 1700000000000000000 1700000000000000000
                   example_store ''proof-htu-query'' ''GET'' (Some 0) no_options)
        = Return (Inl (Join [ErrInvalidProof, ErrIncorrectHTTPTarget]))"
proof -
  let ?c = "example_claims\<lparr>URL := ''https://example.com/token?foo=bar''\<rparr>"
  let ?t = "example_token\<lparr>Claims := ?c\<rparr>"
  let ?ext = "stub_ext example_tokens"
  have h: "claims_present (Claims ?t)" "typ_ok ?t"
    by (simp_all add: example_token_def claims_present_def example_claims_def typ_ok_def
          index_def as_string_def)
  note T = http_target_check [OF stub_jwt_examples(2) h, where st = example_store and p = 0
      and ?now1.0 = 1700000000000000000 and ?now2.0 = 1700000000000000000 and opts = no_options]
  have u: "url_Parse ?ext (URL (Claims ?t)) = Inr (example_url\<lparr>RawQuery := ''foo=bar''\<rparr>)"
    "Method (Claims ?t) = ''POST''"
    "url_String ?ext ((example_store 0)\<lparr>RawQuery := [], Fragment := []\<rparr>)
       = url_String ?ext (example_url\<lparr>RawQuery := ''foo=bar''\<rparr>\<lparr>RawQuery := [], Fragment := []\<rparr>)"
    by (simp_all add: stub_ext_def stub_url_Parse_def example_claims_def example_store_def)
  have w: "\<forall>iat. IssuedAt (Claims ?t) = Some iat \<longrightarrow>
            iat_window no_options iat 1700000000000000000 1700000000000000000 = None"
    by (simp add: example_claims_def iat_window_eq no_options_window sint_minus_64)
  have m: "\<exists>parsed. url_Parse ?ext (URL (Claims ?t)) = Inr parsed
             \<and> ''POST'' = Method (Claims ?t)
             \<and> url_String ?ext ((example_store 0)\<lparr>RawQuery := [], Fragment := []\<rparr>)
                 = url_String ?ext (parsed\<lparr>RawQuery := [], Fragment := []\<rparr>)"
    using u by (intro exI [of _ "example_url\<lparr>RawQuery := ''foo=bar''\<rparr>"] conjI) simp_all
  have "fst (Parse ?ext 1700000000000000000 1700000000000000000
                   example_store ''proof-htu-query'' ''POST'' (Some 0) no_options)
        = Parse_key ?ext ?t no_options"
    by (rule T [of "''POST''", THEN conjunct2, rule_format])
       (intro conjI m example_token_facts(3) w)
  moreover obtain jkt where "thumbprint ?ext ?t = Some jkt"
    using example_thumbprint [of ?t example_tokens] example_headers(1)
    by (auto simp: example_token_def)
  ultimately have 1: "\<exists>jkt. fst (Parse ?ext 1700000000000000000 1700000000000000000
                   example_store ''proof-htu-query'' ''POST'' (Some 0) no_options)
        = Return (Inr \<lparr>Token = ?t, HashedPublicKey = jkt\<rparr>)"
    by (simp add: Parse_key_proof jkt_ok_def no_options_def)
  have 2: "fst (Parse ?ext 1700000000000000000 1700000000000000000
                   example_store ''proof-htu-query'' ''GET'' (Some 0) no_options)
        = Return (Inl (Join [ErrInvalidProof, ErrIncorrectHTTPTarget]))"
    using T [of "''GET''", THEN conjunct1] u(2) by simp
  have q: "RawQuery (example_store 0) = ''foo=bar''"
    by (simp add: example_store_def)
  from stub_jwt_examples(2) h q 1 2 show ?thesis by (intro conjI)
qed

section \<open>The thumbprint\<close>















lemma example_call_succeeds:
  assumes "jwt_ParseWithClaims (stub_ext example_tokens) s keyFunc = Inr t"
    and "Claims t = example_claims"
    and "index (Header t) ''typ'' = VString ''dpop+jwt''"
    and "index (Header t) ''jwk'' = VMap example_jwk
           \<or> index (Header t) ''jwk'' = VMap example_jwk_bare"
  shows "\<exists>prf. fst (Parse (stub_ext example_tokens) 1700000000000000000 1700000000000000000
                  example_store s ''POST'' (Some 0) no_options) = Return (Inr prf)"
proof -
  obtain jkt where j: "thumbprint (stub_ext example_tokens) t = Some jkt"
    using example_thumbprint [OF assms(4)] by blast
  have w: "iat_window no_options 1700000000000000000 1700000000000000000 1700000000000000000 = None"
    by (simp add: iat_window_eq no_options_window sint_minus_64)
  have k: "jkt_ok no_options jkt"
    by (simp add: jkt_ok_def no_options_def)
  have "fst (Parse (stub_ext example_tokens) 1700000000000000000 1700000000000000000
                  example_store s ''POST'' (Some 0) no_options)
        = Return (Inr \<lparr>Token = t, HashedPublicKey = jkt\<rparr>)"
    unfolding Parse_success_iff
    using assms(1-3) j w k
    by (auto simp: example_claims_present example_target_ok example_token_facts typ_ok_def
          as_string_def)
  then show ?thesis by blast
qed


section \<open>Panics and the caller's URL\<close>

text \<open>
  Claim C7 fails on the code. For a proof that the JWT layer accepts, whose claims are
  present and whose \<open>typ\<close> header is neither nil nor a string, \<open>Parse\<close> does not return:
  it panics in the type assertion \<open>typeHeader.(string)\<close>, whatever its other arguments.
\<close>

theorem Parse_panics_on_non_string_typ:
  assumes "jwt_ParseWithClaims ext tokenString keyFunc = Inr tok"
    and "claims_present (Claims tok)"
    and "\<not> is_nil (index (Header tok) ''typ'')"
    and "as_string (index (Header tok) ''typ'') = None"
  shows "Parse ext now1 now2 st tokenString httpMethod httpURL opts = (Panic, st)"
  using assms by (rule Parse_typ_panic)

text \<open>Claim C7 at the sample proof whose \<open>typ\<close> header is the number 123.\<close>

theorem Parse_panics_on_non_string_typ_witness:
  "jwt_ParseWithClaims (stub_ext example_tokens) ''proof-typ-number'' keyFunc =
     Inr (example_token\<lparr>Header := (Header example_token)(''typ'' \<mapsto> VFloat64 0x405EC00000000000)\<rparr>)
   \<and> claims_present (Claims (example_token\<lparr>Header := (Header example_token)(''typ'' \<mapsto> VFloat64 0x405EC00000000000)\<rparr>))
   \<and> index (Header (example_token\<lparr>Header := (Header example_token)(''typ'' \<mapsto> VFloat64 0x405EC00000000000)\<rparr>)) ''typ''
       = VFloat64 0x405EC00000000000
   \<and> Parse (stub_ext example_tokens) 1700000000000000000 1700000000000000000 example_store
       ''proof-typ-number'' ''POST'' (Some 0) no_options = (Panic, example_store)"
proof -
  let ?t = "example_token\<lparr>Header := (Header example_token)(''typ'' \<mapsto> VFloat64 0x405EC00000000000)\<rparr>"
  have c: "claims_present (Claims ?t)" "index (Header ?t) ''typ'' = VFloat64 0x405EC00000000000"
    by (simp_all add: example_token_def claims_present_def example_claims_def index_def)
  have n: "\<not> is_nil (index (Header ?t) ''typ'')" "as_string (index (Header ?t) ''typ'') = None"
    by (simp_all add: example_token_def index_def is_nil_def as_string_def)
  note P = Parse_panics_on_non_string_typ [OF stub_jwt_examples(3) c(1) n]
  from stub_jwt_examples(3) c P show ?thesis by (intro conjI)
qed

text \<open>
  Claim C8 fails on the code, by the same panic. For such a proof the checks before the
  header check pass and the header is not \<open>dpop+jwt\<close>, so the header check is the first
  check that does not pass; yet \<open>Parse\<close> does not return the error \<open>UnsupportedJWTType\<close>,
  nor any result at all.
\<close>

theorem Parse_failing_typ_check_returns_nothing:
  assumes "jwt_ParseWithClaims ext tokenString keyFunc = Inr tok"
    and "claims_present (Claims tok)"
    and "\<not> is_nil (index (Header tok) ''typ'')"
    and "as_string (index (Header tok) ''typ'') = None"
  shows "\<not> typ_ok tok
       \<and> fst (Parse ext now1 now2 st tokenString httpMethod httpURL opts)
           \<noteq> Return (Inl (Join [ErrInvalidProof, ErrUnsupportedJWTType]))
       \<and> (\<forall>r. fst (Parse ext now1 now2 st tokenString httpMethod httpURL opts) \<noteq> Return r)"
proof -
  have "\<not> typ_ok tok"
    using assms(4) by (simp add: typ_ok_def)
  moreover have "fst (Parse ext now1 now2 st tokenString httpMethod httpURL opts) = Panic"
    using Parse_typ_panic [OF assms] by simp
  ultimately show ?thesis by simp
qed

text \<open>Claim C8 at the sample proof whose \<open>typ\<close> header is the number 123.\<close>

theorem Parse_failing_typ_check_returns_nothing_witness:
  "jwt_ParseWithClaims (stub_ext example_tokens) ''proof-typ-number'' keyFunc =
     Inr (example_token\<lparr>Header := (Header example_token)(''typ'' \<mapsto> VFloat64 0x405EC00000000000)\<rparr>)
   \<and> claims_present (Claims (example_token\<lparr>Header := (Header example_token)(''typ'' \<mapsto> VFloat64 0x405EC00000000000)\<rparr>))
   \<and> \<not> typ_ok (example_token\<lparr>Header := (Header example_token)(''typ'' \<mapsto> VFloat64 0x405EC00000000000)\<rparr>)
   \<and> fst (Parse (stub_ext example_tokens) 1700000000000000000 1700000000000000000 example_store
             ''proof-typ-number'' ''POST'' (Some 0) no_options)
       \<noteq> Return (Inl (Join [ErrInvalidProof, ErrUnsupportedJWTType]))"
proof -
  let ?t = "example_token\<lparr>Header := (Header example_token)(''typ'' \<mapsto> VFloat64 0x405EC00000000000)\<rparr>"
  have c: "claims_present (Claims ?t)" "\<not> is_nil (index (Header ?t) ''typ'')"
    "as_string (index (Header ?t) ''typ'') = None"
    by (simp_all add: example_token_def claims_present_def example_claims_def index_def
          is_nil_def as_string_def)
  note P = Parse_failing_typ_check_returns_nothing [OF stub_jwt_examples(3) c,
      of 1700000000000000000 1700000000000000000 example_store "''POST''" "Some 0" no_options]
  from stub_jwt_examples(3) c(1) P show ?thesis by blast
qed

text \<open>
  Claim C9 fails on the code. Whenever a call passes the header check, the URL that the
  caller's pointer refers to has an empty \<open>RawQuery\<close> and an empty \<open>Fragment\<close> after the
  call, whatever the call returns; so a caller's URL with a query string or a fragment is
  changed.
\<close>

theorem Parse_writes_callers_URL:
  assumes "jwt_ParseWithClaims ext tokenString keyFunc = Inr tok"
    and "claims_present (Claims tok)"
    and "typ_ok tok"
  shows "snd (Parse ext now1 now2 st tokenString httpMethod (Some p) opts) p
           = (st p)\<lparr>RawQuery := [], Fragment := []\<rparr>
       \<and> (RawQuery (st p) \<noteq> [] \<or> Fragment (st p) \<noteq> []
          \<longrightarrow> snd (Parse ext now1 now2 st tokenString httpMethod (Some p) opts) \<noteq> st)"
proof -
  let ?st' = "st(p := strip_query (st p))"
  have "snd (Parse ext now1 now2 st tokenString httpMethod (Some p) opts) = ?st'"
  proof (cases "target_ok ext httpMethod (st p) (Claims tok)")
    case False
    from Parse_target_error [where st = st and p = p, OF assms False] show ?thesis by simp
  next
    case g: True
    show ?thesis
    proof (cases "nonce_ok opts (Claims tok)")
      case False
      from Parse_nonce_error [where st = st and p = p, OF assms g False] show ?thesis by simp
    next
      case n: True
      obtain iat where i: "IssuedAt (Claims tok) = Some iat"
        using claims_present_iat [OF assms(2)] by blast
      show ?thesis
      proof (cases "iat_window opts iat now1 now2")
        case None
        from Parse_past_iat [where st = st and p = p, OF assms g n i None] show ?thesis by simp
      next
        case (Some e)
        from Parse_iat_error [where st = st and p = p, OF assms g n i Some] show ?thesis by simp
      qed
    qed
  qed
  then have a: "snd (Parse ext now1 now2 st tokenString httpMethod (Some p) opts) p
           = (st p)\<lparr>RawQuery := [], Fragment := []\<rparr>"
    by (simp add: strip_query_def)
  have "snd (Parse ext now1 now2 st tokenString httpMethod (Some p) opts) \<noteq> st"
    if "RawQuery (st p) \<noteq> [] \<or> Fragment (st p) \<noteq> []"
  proof
    assume "snd (Parse ext now1 now2 st tokenString httpMethod (Some p) opts) = st"
    with a have e: "st p = (st p)\<lparr>RawQuery := [], Fragment := []\<rparr>" by simp
    have "RawQuery (st p) = []"
      using arg_cong [OF e, of RawQuery] by simp
    moreover have "Fragment (st p) = []"
      using arg_cong [OF e, of Fragment] by simp
    ultimately show False using that by simp
  qed
  with a show ?thesis by simp
qed

text \<open>
  Claim C9 at the sample proof and the request URL \<open>https://example.com/token?foo=bar\<close>:
  the call returns a proof, and the caller's URL has lost its query string.
\<close>

theorem Parse_writes_callers_URL_witness:
  "jwt_ParseWithClaims (stub_ext example_tokens) ''proof'' keyFunc = Inr example_token
   \<and> claims_present (Claims example_token) \<and> typ_ok example_token
   \<and> RawQuery (example_store 0) = ''foo=bar''
   \<and> (\<exists>prf. fst (Parse (stub_ext example_tokens) 1700000000000000000 1700000000000000000
                  example_store ''proof'' ''POST'' (Some 0) no_options) = Return (Inr prf))
   \<and> RawQuery (snd (Parse (stub_ext example_tokens) 1700000000000000000 1700000000000000000
                  example_store ''proof'' ''POST'' (Some 0) no_options) 0) = []
   \<and> snd (Parse (stub_ext example_tokens) 1700000000000000000 1700000000000000000
                  example_store ''proof'' ''POST'' (Some 0) no_options) \<noteq> example_store"
proof -
  note h = stub_jwt_examples(1) example_token_facts(1,2)
  have q: "RawQuery (example_store 0) = ''foo=bar''"
    by (simp add: example_store_def)
  note W = Parse_writes_callers_URL [OF h, where st = example_store and p = 0
      and ?now1.0 = 1700000000000000000 and ?now2.0 = 1700000000000000000
      and httpMethod = "''POST''" and opts = no_options]
  have 1: "RawQuery (snd (Parse (stub_ext example_tokens) 1700000000000000000 1700000000000000000
                  example_store ''proof'' ''POST'' (Some 0) no_options) 0) = []"
    using W [THEN conjunct1] by simp
  have 2: "snd (Parse (stub_ext example_tokens) 1700000000000000000 1700000000000000000
                  example_store ''proof'' ''POST'' (Some 0) no_options) \<noteq> example_store"
    using W [THEN conjunct2] q by simp
  have 3: "\<exists>prf. fst (Parse (stub_ext example_tokens) 1700000000000000000 1700000000000000000
                  example_store ''proof'' ''POST'' (Some 0) no_options) = Return (Inr prf)"
    using example_call_succeeds [OF stub_jwt_examples(1) example_token_facts(5) example_headers(2)]
      example_headers(1) by blast
  from h q 3 1 2 show ?thesis by (intro conjI)
qed

end
